theory Spec2Isabelle
  imports Main
begin

section \<open>Strings, as the two scripts use them\<close>

text \<open>
  Both scripts are TypeScript programs for Node. Their strings are modelled as
  \<^typ>\<open>string\<close>. \<open>String.prototype.includes\<close> is the substring test.
\<close>

definition startsWith :: "string \<Rightarrow> string \<Rightarrow> bool" where
  "startsWith s sub = (take (length sub) s = sub)"

fun str_includes :: "string \<Rightarrow> string \<Rightarrow> bool" where
  "str_includes [] sub = (sub = [])"
| "str_includes (c # cs) sub = (startsWith (c # cs) sub \<or> str_includes cs sub)"

text \<open>
  A number inside a template literal (\<open>${response.status}\<close>) is printed in decimal.
\<close>

definition digit_char :: "nat \<Rightarrow> char" where
  "digit_char d = char_of (48 + d)"

fun show_nat :: "nat \<Rightarrow> string" where
  "show_nat n = (if n < 10 then [digit_char n] else show_nat (n div 10) @ [digit_char (n mod 10)])"

declare show_nat.simps [simp del]

text \<open>
  \<open>path.basename\<close> of a POSIX path: the last segment, trailing slashes dropped.
\<close>

definition basename :: "string \<Rightarrow> string" where
  "basename p = rev (takeWhile (\<lambda>c. c \<noteq> CHR ''/'') (dropWhile (\<lambda>c. c = CHR ''/'') (rev p)))"

text \<open>
  \<open>name.split('/')\<close> followed by the destructuring \<open>const [owner, repo] = ...\<close>: the
  first two segments. A missing second segment is \<open>undefined\<close>, which a template literal
  prints as the word \<open>undefined\<close>.
\<close>

fun split_slash :: "string \<Rightarrow> string list" where
  "split_slash [] = [[]]"
| "split_slash (c # cs) =
     (if c = CHR ''/'' then [] # split_slash cs
      else (case split_slash cs of [] \<Rightarrow> [[c]] | seg # segs \<Rightarrow> (c # seg) # segs))"

definition owner_repo :: "string \<Rightarrow> string \<times> string" where
  "owner_repo name =
     (case split_slash name of
        [] \<Rightarrow> (''undefined'', ''undefined'')
      | [a] \<Rightarrow> (a, ''undefined'')
      | a # b # _ \<Rightarrow> (a, b))"

section \<open>The transport: requests, responses, the trace of calls\<close>

datatype http_method = GET | PUT | PATCH | POST

text \<open>
  A request as \<open>githubRequest\<close> hands it to \<open>fetch\<close>: the method (GET when no option is
  given), the endpoint, and the body. Every body the scripts send is
  \<open>JSON.stringify\<close> of an object literal with string fields; it is kept as the list of
  its fields, in the order of the literal. The headers are the same constants on every
  call and are left out.
\<close>

record request =
  req_method :: http_method
  req_endpoint :: string
  req_body :: "(string \<times> string) list option"

record response =
  resp_status :: nat
  resp_body :: string
  resp_content_length :: "string option"
  resp_content_type :: "string option"

text \<open>\<open>response.ok\<close>: the status is in the range 200 to 299.\<close>

definition resp_ok :: "response \<Rightarrow> bool" where
  "resp_ok r = (200 \<le> resp_status r \<and> resp_status r \<le> 299)"

text \<open>
  What awaiting \<open>fetch\<close> and the body gives: a rejection (an \<open>Error\<close> with a message:
  no connection, a broken body stream), or a response.
\<close>

datatype fetch_result = Rejected string | Response response

text \<open>
  What \<open>githubRequest\<close> returns: the object it makes up itself when there is no content
  (\<open>{}\<close> in sync-workflows, \<open>null\<close> in set-secrets), or \<open>JSON.parse(text) as T\<close>.
\<close>

datatype 'j reply = NoContent | Parsed 'j

text \<open>
  The lines the scripts print, by kind: the texts themselves are not ASCII.
\<close>

datatype log_line =
    LogTitle
  | LogNoRepositories
  | LogRepository string
  | LogUpToDate string
  | LogUpdated string
  | LogCreated string
  | LogVariableSet string
  | ErrVariable string
  | WarnNoWorkflows
  | ErrWorkflow string string
  | LogSecretSet
  | ErrSecret string
  | LogDone
  | ErrTokenMissing
  | ErrKeyMissing
  | ErrFatal string

text \<open>
  The state a run threads through: the state of everything outside the process (the
  remote store, the entropy of the sealing), the requests issued so far and the lines
  printed so far.
\<close>

record 'w world =
  remote :: 'w
  calls :: "request list"
  console :: "log_line list"

definition print_line :: "log_line \<Rightarrow> 'w world \<Rightarrow> 'w world" where
  "print_line l w = w\<lparr>console := console w @ [l]\<rparr>"

section \<open>sync-workflows.ts\<close>

record GitHubFileResponse =
  file_content :: string
  file_sha :: string

record RepositoryConfig =
  rc_name :: string
  rc_workflows :: "string list option"
  rc_branch :: "string option"
  rc_runsOn :: "string option"

record Config =
  repositories :: "RepositoryConfig list option"

text \<open>
  What both scripts take from outside to talk to the store: \<open>fetch\<close> (it may change
  the state of the outside) and \<open>JSON.parse\<close> (\<open>Inl\<close> is the message of the error it
  throws). The type \<open>'j\<close> is the \<open>T\<close> of \<open>githubRequest<T>\<close>.
\<close>

record ('w, 'j) transport =
  fetch :: "'w \<Rightarrow> request \<Rightarrow> fetch_result \<times> 'w"
  JSON_parse :: "string \<Rightarrow> string + 'j"

text \<open>
  sync-workflows adds the two conversions of \<open>Buffer\<close>:
  \<open>Buffer.from(s).toString('base64')\<close> and \<open>Buffer.from(s, 'base64').toString('utf8')\<close>.
\<close>

record ('w, 'j) platform = "('w, 'j) transport" +
  toBase64 :: "string \<Rightarrow> string"
  fromBase64 :: "string \<Rightarrow> string"

definition githubRequest ::
  "('w, 'j, 'z) transport_scheme \<Rightarrow> request \<Rightarrow> 'w world \<Rightarrow> (string + 'j reply) \<times> 'w world" where
  "githubRequest P req w =
     (case fetch P (remote w) req of
        (res, r') \<Rightarrow>
          (let w' = w\<lparr>remote := r', calls := calls w @ [req]\<rparr> in
           case res of
             Rejected msg \<Rightarrow> (Inl msg, w')
           | Response resp \<Rightarrow>
               if \<not> resp_ok resp
               then (Inl (''GitHub API error: '' @ show_nat (resp_status resp) @ '' '' @ resp_body resp), w')
               else if resp_status resp = 204 \<or> resp_content_length resp = Some ''0''
               then (Inr NoContent, w')
               else if resp_body resp = [] then (Inr NoContent, w')
               else (case JSON_parse P (resp_body resp) of
                       Inl msg \<Rightarrow> (Inl msg, w')
                     | Inr j \<Rightarrow> (Inr (Parsed j), w'))))"

definition encodeBase64 :: "('w, 'j) platform \<Rightarrow> string \<Rightarrow> string" where
  "encodeBase64 P content = toBase64 P content"

text \<open>
  The three ways \<open>syncFile\<close> returns normally; it returns nothing, and prints a
  different line on each. Throwing is \<open>Inl\<close> of the message.
\<close>

datatype outcome = Unchanged | Updated | Created

definition contents_endpoint :: "string \<Rightarrow> string \<Rightarrow> string \<Rightarrow> string" where
  "contents_endpoint owner repo filePath =
     ''/repos/'' @ owner @ ''/'' @ repo @ ''/contents/'' @ filePath"

definition read_request :: "string \<Rightarrow> string \<Rightarrow> request" where
  "read_request endpoint branch =
     \<lparr>req_method = GET, req_endpoint = endpoint @ ''?ref='' @ branch, req_body = None\<rparr>"

definition update_request :: "('w, 'j) platform \<Rightarrow> string \<Rightarrow> string \<Rightarrow> string \<Rightarrow> string \<Rightarrow> string \<Rightarrow> request" where
  "update_request P endpoint filePath content sha branch =
     \<lparr>req_method = PUT, req_endpoint = endpoint,
      req_body = Some [(''message'', ''Update workflow: '' @ basename filePath),
                       (''content'', encodeBase64 P content),
                       (''sha'', sha),
                       (''branch'', branch)]\<rparr>"

definition create_request :: "('w, 'j) platform \<Rightarrow> string \<Rightarrow> string \<Rightarrow> string \<Rightarrow> string \<Rightarrow> request" where
  "create_request P endpoint filePath content branch =
     \<lparr>req_method = PUT, req_endpoint = endpoint,
      req_body = Some [(''message'', ''Add workflow: '' @ basename filePath),
                       (''content'', encodeBase64 P content),
                       (''branch'', branch)]\<rparr>"

text \<open>
  \<open>Buffer.from(undefined, 'base64')\<close>, reached when the read returned \<open>{}\<close>, throws a
  TypeError with this message.
\<close>

definition buffer_type_error :: string where
  "buffer_type_error = ''The first argument must be of type string or an instance of Buffer, ArrayBuffer, or Array or an Array-like Object. Received undefined''"

text \<open>The \<open>try\<close> block of \<open>syncFile\<close>.\<close>

definition syncFile_try ::
  "('w, GitHubFileResponse) platform \<Rightarrow> string \<Rightarrow> string \<Rightarrow> string \<Rightarrow> string \<Rightarrow> 'w world
     \<Rightarrow> (string + outcome) \<times> 'w world" where
  "syncFile_try P endpoint filePath content branch w =
     (case githubRequest P (read_request endpoint branch) w of
        (Inl msg, w1) \<Rightarrow> (Inl msg, w1)
      | (Inr NoContent, w1) \<Rightarrow> (Inl buffer_type_error, w1)
      | (Inr (Parsed existing), w1) \<Rightarrow>
          if fromBase64 P (file_content existing) = content
          then (Inr Unchanged, print_line (LogUpToDate filePath) w1)
          else (case githubRequest P
                       (update_request P endpoint filePath content (file_sha existing) branch) w1 of
                  (Inl msg, w2) \<Rightarrow> (Inl msg, w2)
                | (Inr _, w2) \<Rightarrow> (Inr Updated, print_line (LogUpdated filePath) w2)))"

definition syncFile ::
  "('w, GitHubFileResponse) platform \<Rightarrow> string \<Rightarrow> string \<Rightarrow> string \<Rightarrow> string \<Rightarrow> string \<Rightarrow> 'w world
     \<Rightarrow> (string + outcome) \<times> 'w world" where
  "syncFile P owner repo filePath content branch w =
     (let endpoint = contents_endpoint owner repo filePath in
      case syncFile_try P endpoint filePath content branch w of
        (Inr out, w1) \<Rightarrow> (Inr out, w1)
      | (Inl msg, w1) \<Rightarrow>
          if str_includes msg ''404''
          then (case githubRequest P (create_request P endpoint filePath content branch) w1 of
                  (Inl msg2, w2) \<Rightarrow> (Inl msg2, w2)
                | (Inr _, w2) \<Rightarrow> (Inr Created, print_line (LogCreated filePath) w2))
          else (Inl msg, w1))"

text \<open>\<open>setVariable\<close>: the same shape, with PATCH to update and POST to create.\<close>

definition variable_endpoint :: "string \<Rightarrow> string \<Rightarrow> string \<Rightarrow> string" where
  "variable_endpoint owner repo variableName =
     ''/repos/'' @ owner @ ''/'' @ repo @ ''/actions/variables/'' @ variableName"

definition variable_read_request :: "string \<Rightarrow> request" where
  "variable_read_request endpoint = \<lparr>req_method = GET, req_endpoint = endpoint, req_body = None\<rparr>"

definition variable_update_request :: "string \<Rightarrow> string \<Rightarrow> string \<Rightarrow> request" where
  "variable_update_request endpoint variableName variableValue =
     \<lparr>req_method = PATCH, req_endpoint = endpoint,
      req_body = Some [(''name'', variableName), (''value'', variableValue)]\<rparr>"

definition variable_create_request :: "string \<Rightarrow> string \<Rightarrow> string \<Rightarrow> string \<Rightarrow> request" where
  "variable_create_request owner repo variableName variableValue =
     \<lparr>req_method = POST, req_endpoint = ''/repos/'' @ owner @ ''/'' @ repo @ ''/actions/variables'',
      req_body = Some [(''name'', variableName), (''value'', variableValue)]\<rparr>"

definition setVariable_try ::
  "('w, 'j, 'z) transport_scheme \<Rightarrow> string \<Rightarrow> string \<Rightarrow> string \<Rightarrow> 'w world
     \<Rightarrow> (string + unit) \<times> 'w world" where
  "setVariable_try P endpoint variableName variableValue w =
     (case githubRequest P (variable_read_request endpoint) w of
        (Inl msg, w1) \<Rightarrow> (Inl msg, w1)
      | (Inr _, w1) \<Rightarrow>
          (case githubRequest P (variable_update_request endpoint variableName variableValue) w1 of
             (Inl msg, w2) \<Rightarrow> (Inl msg, w2)
           | (Inr _, w2) \<Rightarrow> (Inr (), w2)))"

definition setVariable ::
  "('w, 'j, 'z) transport_scheme \<Rightarrow> string \<Rightarrow> string \<Rightarrow> string \<Rightarrow> string \<Rightarrow> 'w world
     \<Rightarrow> (string + unit) \<times> 'w world" where
  "setVariable P owner repo variableName variableValue w =
     (let endpoint = variable_endpoint owner repo variableName in
      case setVariable_try P endpoint variableName variableValue w of
        (Inr u, w1) \<Rightarrow> (Inr u, w1)
      | (Inl msg, w1) \<Rightarrow>
          if str_includes msg ''404''
          then (case githubRequest P (variable_create_request owner repo variableName variableValue) w1 of
                  (Inl msg2, w2) \<Rightarrow> (Inl msg2, w2)
                | (Inr _, w2) \<Rightarrow> (Inr (), w2))
          else (Inl msg, w1))"

subsection \<open>The local files\<close>

text \<open>
  A directory entry as \<open>fs.readdir(dir, {withFileTypes: true})\<close> lists it: a file, with
  what \<open>fs.readFile\<close> of it gives (\<open>Inl\<close> is the message of the error thrown), or a
  directory. What \<open>fs.readdir\<close> gives for a directory: it throws, or it lists the entries.
\<close>

datatype dirent =
    FileEnt string "string + string"
  | DirEnt string directory
and directory =
    Unreadable string
  | Listing "dirent list"

text \<open>
  \<open>getFilesRecursively\<close> pushes the path of every file onto the one array all calls
  share. The model keeps with each path what reading that file will give, so that
  \<open>main\<close> can read it later.
\<close>

fun getFilesRecursively ::
      "string \<Rightarrow> directory \<Rightarrow> (string \<times> (string + string)) list
         \<Rightarrow> string + (string \<times> (string + string)) list"
  and getFiles_loop ::
      "string \<Rightarrow> dirent list \<Rightarrow> (string \<times> (string + string)) list
         \<Rightarrow> string + (string \<times> (string + string)) list" where
  "getFilesRecursively dir (Unreadable msg) fileList = Inl msg"
| "getFilesRecursively dir (Listing files) fileList = getFiles_loop dir files fileList"
| "getFiles_loop dir [] fileList = Inr fileList"
| "getFiles_loop dir (FileEnt name rd # files) fileList =
     getFiles_loop dir files (fileList @ [(dir @ ''/'' @ name, rd)])"
| "getFiles_loop dir (DirEnt name sub # files) fileList =
     (case getFilesRecursively (dir @ ''/'' @ name) sub fileList of
        Inl msg \<Rightarrow> Inl msg
      | Inr fileList' \<Rightarrow> getFiles_loop dir files fileList')"

text \<open>
  What \<open>yaml.load\<close> returns for the configuration file: \<open>undefined\<close> for a file with no
  document (empty, or comments only), \<open>null\<close> for a null document, and otherwise a value
  that the cast \<open>as Config\<close> takes for a \<open>Config\<close>. Reading \<open>config.repositories\<close> throws
  a TypeError on the first two.
\<close>

datatype loaded_config = YamlUndefined | YamlNull | YamlValue Config

definition undefined_repositories_error :: string where
  "undefined_repositories_error = ''Cannot read properties of undefined (reading 'repositories')''"

definition null_repositories_error :: string where
  "null_repositories_error = ''Cannot read properties of null (reading 'repositories')''"

definition read_repositories :: "loaded_config \<Rightarrow> string + RepositoryConfig list option" where
  "read_repositories config =
     (case config of
        YamlUndefined \<Rightarrow> Inl undefined_repositories_error
      | YamlNull \<Rightarrow> Inl null_repositories_error
      | YamlValue c \<Rightarrow> Inr (repositories c))"

text \<open>
  The files \<open>main\<close> reads: the configuration (\<open>fs.readFile\<close> then \<open>yaml.load\<close>, \<open>Inl\<close> when
  either throws), the template of a workflow name (\<open>templates/<name>.yml\<close>), and the
  directory \<open>templates/.github/commands\<close>. Paths are kept relative to \<open>templates\<close>, which
  is what \<open>path.relative\<close> makes of them before they are sent. The local files do not
  change during a run: every turn of the loops reads the same templates and the same
  listing.
\<close>

record filesystem =
  fs_config :: "string + loaded_config"
  fs_template :: "string \<Rightarrow> string + string"
  fs_commands :: directory

subsection \<open>main\<close>

text \<open>The inner loop over \<open>commandFiles\<close>.\<close>

fun sync_commands ::
  "('w, GitHubFileResponse) platform \<Rightarrow> string \<Rightarrow> string \<Rightarrow> string
     \<Rightarrow> (string \<times> (string + string)) list \<Rightarrow> 'w world \<Rightarrow> (string + unit) \<times> 'w world" where
  "sync_commands P owner repo branch [] w = (Inr (), w)"
| "sync_commands P owner repo branch ((relativePath, Inl msg) # commandFiles) w = (Inl msg, w)"
| "sync_commands P owner repo branch ((relativePath, Inr commandContent) # commandFiles) w =
     (case syncFile P owner repo relativePath commandContent branch w of
        (Inl msg, w1) \<Rightarrow> (Inl msg, w1)
      | (Inr _, w1) \<Rightarrow> sync_commands P owner repo branch commandFiles w1)"

text \<open>The inner \<open>try\<close> block: list the commands directory, then the loop.\<close>

definition commands_try ::
  "('w, GitHubFileResponse) platform \<Rightarrow> filesystem \<Rightarrow> string \<Rightarrow> string \<Rightarrow> string
     \<Rightarrow> 'w world \<Rightarrow> (string + unit) \<times> 'w world" where
  "commands_try P FS owner repo branch w =
     (case getFilesRecursively ''.github/commands'' (fs_commands FS) [] of
        Inl msg \<Rightarrow> (Inl msg, w)
      | Inr commandFiles \<Rightarrow> sync_commands P owner repo branch commandFiles w)"

definition workflow_path :: "string \<Rightarrow> string" where
  "workflow_path workflowName = ''.github/workflows/'' @ workflowName @ ''.yml''"

text \<open>The outer \<open>try\<close> block of one workflow name.\<close>

definition workflow_try ::
  "('w, GitHubFileResponse) platform \<Rightarrow> filesystem \<Rightarrow> string \<Rightarrow> string \<Rightarrow> string \<Rightarrow> string
     \<Rightarrow> 'w world \<Rightarrow> (string + unit) \<times> 'w world" where
  "workflow_try P FS owner repo branch workflowName w =
     (case fs_template FS workflowName of
        Inl msg \<Rightarrow> (Inl msg, w)
      | Inr templateContent \<Rightarrow>
          (case syncFile P owner repo (workflow_path workflowName) templateContent branch w of
             (Inl msg, w1) \<Rightarrow> (Inl msg, w1)
           | (Inr _, w1) \<Rightarrow>
               (case commands_try P FS owner repo branch w1 of
                  (Inl msg, w2) \<Rightarrow>
                    if \<not> str_includes msg ''ENOENT'' then (Inl msg, w2) else (Inr (), w2)
                | (Inr u, w2) \<Rightarrow> (Inr u, w2))))"

text \<open>One turn of the loop over \<open>repoConfig.workflows\<close>: the \<open>try\<close> and its \<open>catch\<close>.\<close>

definition sync_workflow ::
  "('w, GitHubFileResponse) platform \<Rightarrow> filesystem \<Rightarrow> string \<Rightarrow> string \<Rightarrow> string \<Rightarrow> string
     \<Rightarrow> 'w world \<Rightarrow> 'w world" where
  "sync_workflow P FS owner repo branch workflowName w =
     (case workflow_try P FS owner repo branch workflowName w of
        (Inl msg, w1) \<Rightarrow> print_line (ErrWorkflow workflowName msg) w1
      | (Inr _, w1) \<Rightarrow> w1)"

fun sync_workflows ::
  "('w, GitHubFileResponse) platform \<Rightarrow> filesystem \<Rightarrow> string \<Rightarrow> string \<Rightarrow> string \<Rightarrow> string list
     \<Rightarrow> 'w world \<Rightarrow> 'w world" where
  "sync_workflows P FS owner repo branch [] w = w"
| "sync_workflows P FS owner repo branch (workflowName # rest) w =
     sync_workflows P FS owner repo branch rest (sync_workflow P FS owner repo branch workflowName w)"

text \<open>The \<open>RUNS_ON\<close> step of one repository, with its own \<open>try\<close> and \<open>catch\<close>.\<close>

definition runsOn_step ::
  "('w, GitHubFileResponse) platform \<Rightarrow> string \<Rightarrow> string \<Rightarrow> RepositoryConfig \<Rightarrow> 'w world \<Rightarrow> 'w world" where
  "runsOn_step P owner repo repoConfig w =
     (case rc_runsOn repoConfig of
        None \<Rightarrow> w
      | Some runsOn \<Rightarrow>
          if runsOn = [] then w
          else (case setVariable P owner repo ''RUNS_ON'' runsOn w of
                  (Inr _, w1) \<Rightarrow> print_line (LogVariableSet runsOn) w1
                | (Inl msg, w1) \<Rightarrow> print_line (ErrVariable msg) w1))"

definition branch_of :: "RepositoryConfig \<Rightarrow> string" where
  "branch_of repoConfig =
     (case rc_branch repoConfig of None \<Rightarrow> ''main'' | Some b \<Rightarrow> if b = [] then ''main'' else b)"

text \<open>One turn of the loop over \<open>config.repositories\<close>.\<close>

definition process_repo ::
  "('w, GitHubFileResponse) platform \<Rightarrow> filesystem \<Rightarrow> RepositoryConfig \<Rightarrow> 'w world \<Rightarrow> 'w world" where
  "process_repo P FS repoConfig w =
     (case owner_repo (rc_name repoConfig) of
        (owner, repo) \<Rightarrow>
          (let branch = branch_of repoConfig;
               w1 = print_line (LogRepository (rc_name repoConfig)) w;
               w2 = runsOn_step P owner repo repoConfig w1
           in case rc_workflows repoConfig of
                None \<Rightarrow> print_line WarnNoWorkflows w2
              | Some workflows \<Rightarrow>
                  if workflows = [] then print_line WarnNoWorkflows w2
                  else sync_workflows P FS owner repo branch workflows w2))"

fun process_repos ::
  "('w, GitHubFileResponse) platform \<Rightarrow> filesystem \<Rightarrow> RepositoryConfig list \<Rightarrow> 'w world \<Rightarrow> 'w world" where
  "process_repos P FS [] w = w"
| "process_repos P FS (repoConfig # rest) w = process_repos P FS rest (process_repo P FS repoConfig w)"

definition main ::
  "('w, GitHubFileResponse) platform \<Rightarrow> filesystem \<Rightarrow> 'w world \<Rightarrow> (string + unit) \<times> 'w world" where
  "main P FS w =
     (let w0 = print_line LogTitle w in
      case fs_config FS of
        Inl msg \<Rightarrow> (Inl msg, w0)
      | Inr config \<Rightarrow>
          (case read_repositories config of
             Inl msg \<Rightarrow> (Inl msg, w0)
           | Inr None \<Rightarrow> (Inr (), print_line LogNoRepositories w0)
           | Inr (Some repos) \<Rightarrow>
               if repos = [] then (Inr (), print_line LogNoRepositories w0)
               else (Inr (), print_line LogDone (process_repos P FS repos w0))))"

text \<open>
  The script from its first line: the check of the credential, then
  \<open>main().catch(...)\<close>. The result is the exit status of the process.
\<close>

record env =
  GITHUB_TOKEN :: "string option"
  GEMINI_API_KEY :: "string option"

definition unset :: "string option \<Rightarrow> bool" where
  "unset v = (case v of None \<Rightarrow> True | Some s \<Rightarrow> s = [])"

definition sync_workflows_script ::
  "env \<Rightarrow> ('w, GitHubFileResponse) platform \<Rightarrow> filesystem \<Rightarrow> 'w world \<Rightarrow> nat \<times> 'w world" where
  "sync_workflows_script E P FS w =
     (if unset (GITHUB_TOKEN E) then (1, print_line ErrTokenMissing w)
      else (case main P FS w of
              (Inl msg, w1) \<Rightarrow> (1, print_line (ErrFatal msg) w1)
            | (Inr _, w1) \<Rightarrow> (0, w1)))"

section \<open>set-secrets.ts\<close>

text \<open>
  The script reads the same configuration file, in the same way; of a repository it
  uses the name only.
\<close>

record PublicKeyResponse =
  pk_key_id :: string
  pk_key :: string

text \<open>
  What set-secrets adds to the transport: \<open>decodeBase64\<close> and \<open>encodeBase64\<close> of
  tweetnacl-util (the first throws on a string that is not base64), \<open>TextEncoder.encode\<close>,
  and \<open>seal\<close> of tweetnacl-sealedbox-js, which draws a fresh key pair from the outside
  on every call and may throw.
\<close>

record ('w, 'j) secrets_platform = "('w, 'j) transport" +
  decodeBase64 :: "string \<Rightarrow> string + string"
  TextEncoder_encode :: "string \<Rightarrow> string"
  seal :: "'w \<Rightarrow> string \<Rightarrow> string \<Rightarrow> (string + string) \<times> 'w"
  nacl_encodeBase64 :: "string \<Rightarrow> string"

text \<open>
  \<open>githubRequest\<close> of set-secrets.ts: as the other one up to the empty cases, where it
  looks at the content type and returns \<open>null\<close>.
\<close>

definition is_json :: "string option \<Rightarrow> bool" where
  "is_json contentType =
     (case contentType of None \<Rightarrow> False | Some t \<Rightarrow> str_includes t ''application/json'')"

definition githubRequest_secrets ::
  "('w, 'j, 'z) transport_scheme \<Rightarrow> request \<Rightarrow> 'w world \<Rightarrow> (string + 'j reply) \<times> 'w world" where
  "githubRequest_secrets P req w =
     (case fetch P (remote w) req of
        (res, r') \<Rightarrow>
          (let w' = w\<lparr>remote := r', calls := calls w @ [req]\<rparr> in
           case res of
             Rejected msg \<Rightarrow> (Inl msg, w')
           | Response resp \<Rightarrow>
               if \<not> resp_ok resp
               then (Inl (''GitHub API error: '' @ show_nat (resp_status resp) @ '' '' @ resp_body resp), w')
               else if resp_status resp = 204 \<or> \<not> is_json (resp_content_type resp)
               then (Inr NoContent, w')
               else if resp_body resp = [] then (Inr NoContent, w')
               else (case JSON_parse P (resp_body resp) of
                       Inl msg \<Rightarrow> (Inl msg, w')
                     | Inr j \<Rightarrow> (Inr (Parsed j), w'))))"

definition encryptSecret ::
  "('w, 'j) secrets_platform \<Rightarrow> string \<Rightarrow> string \<Rightarrow> 'w \<Rightarrow> (string + string) \<times> 'w" where
  "encryptSecret P publicKey secretValue r =
     (case decodeBase64 P publicKey of
        Inl msg \<Rightarrow> (Inl msg, r)
      | Inr publicKeyBytes \<Rightarrow>
          (let secretBytes = TextEncoder_encode P secretValue in
           case seal P r secretBytes publicKeyBytes of
             (Inl msg, r') \<Rightarrow> (Inl msg, r')
           | (Inr encryptedBytes, r') \<Rightarrow> (Inr (nacl_encodeBase64 P encryptedBytes), r')))"

definition public_key_request :: "string \<Rightarrow> string \<Rightarrow> request" where
  "public_key_request owner repo =
     \<lparr>req_method = GET,
      req_endpoint = ''/repos/'' @ owner @ ''/'' @ repo @ ''/actions/secrets/public-key'',
      req_body = None\<rparr>"

definition getPublicKey ::
  "('w, PublicKeyResponse) secrets_platform \<Rightarrow> string \<Rightarrow> string \<Rightarrow> 'w world
     \<Rightarrow> (string + PublicKeyResponse reply) \<times> 'w world" where
  "getPublicKey P owner repo w = githubRequest_secrets P (public_key_request owner repo) w"

definition secret_request :: "string \<Rightarrow> string \<Rightarrow> string \<Rightarrow> string \<Rightarrow> string \<Rightarrow> request" where
  "secret_request owner repo secretName encryptedValue keyId =
     \<lparr>req_method = PUT,
      req_endpoint = ''/repos/'' @ owner @ ''/'' @ repo @ ''/actions/secrets/'' @ secretName,
      req_body = Some [(''encrypted_value'', encryptedValue), (''key_id'', keyId)]\<rparr>"

text \<open>
  \<open>publicKey.key\<close> when \<open>getPublicKey\<close> returned \<open>null\<close> throws a TypeError with this
  message.
\<close>

definition null_key_error :: string where
  "null_key_error = ''Cannot read properties of null (reading 'key')''"

definition setSecret ::
  "('w, PublicKeyResponse) secrets_platform \<Rightarrow> string \<Rightarrow> string \<Rightarrow> string \<Rightarrow> string \<Rightarrow> 'w world
     \<Rightarrow> (string + unit) \<times> 'w world" where
  "setSecret P owner repo secretName secretValue w =
     (case getPublicKey P owner repo w of
        (Inl msg, w1) \<Rightarrow> (Inl msg, w1)
      | (Inr NoContent, w1) \<Rightarrow> (Inl null_key_error, w1)
      | (Inr (Parsed publicKey), w1) \<Rightarrow>
          (case encryptSecret P (pk_key publicKey) secretValue (remote w1) of
             (Inl msg, r2) \<Rightarrow> (Inl msg, w1\<lparr>remote := r2\<rparr>)
           | (Inr encryptedValue, r2) \<Rightarrow>
               (case githubRequest_secrets P
                       (secret_request owner repo secretName encryptedValue (pk_key_id publicKey))
                       (w1\<lparr>remote := r2\<rparr>) of
                  (Inl msg, w2) \<Rightarrow> (Inl msg, w2)
                | (Inr _, w2) \<Rightarrow> (Inr (), w2))))"

text \<open>One turn of the loop of \<open>main\<close> of set-secrets.ts, and the loop.\<close>

definition secret_repo ::
  "('w, PublicKeyResponse) secrets_platform \<Rightarrow> string \<Rightarrow> RepositoryConfig \<Rightarrow> 'w world \<Rightarrow> 'w world" where
  "secret_repo P apiKey repoConfig w =
     (case owner_repo (rc_name repoConfig) of
        (owner, repo) \<Rightarrow>
          (let w1 = print_line (LogRepository (rc_name repoConfig)) w in
           case setSecret P owner repo ''GEMINI_API_KEY'' apiKey w1 of
             (Inr _, w2) \<Rightarrow> print_line LogSecretSet w2
           | (Inl msg, w2) \<Rightarrow> print_line (ErrSecret msg) w2))"

fun secret_repos ::
  "('w, PublicKeyResponse) secrets_platform \<Rightarrow> string \<Rightarrow> RepositoryConfig list \<Rightarrow> 'w world \<Rightarrow> 'w world" where
  "secret_repos P apiKey [] w = w"
| "secret_repos P apiKey (repoConfig # rest) w =
     secret_repos P apiKey rest (secret_repo P apiKey repoConfig w)"

definition main_secrets ::
  "('w, PublicKeyResponse) secrets_platform \<Rightarrow> string + loaded_config \<Rightarrow> string \<Rightarrow> 'w world
     \<Rightarrow> (string + unit) \<times> 'w world" where
  "main_secrets P loaded apiKey w =
     (let w0 = print_line LogTitle w in
      case loaded of
        Inl msg \<Rightarrow> (Inl msg, w0)
      | Inr config \<Rightarrow>
          (case read_repositories config of
             Inl msg \<Rightarrow> (Inl msg, w0)
           | Inr None \<Rightarrow> (Inr (), print_line LogNoRepositories w0)
           | Inr (Some repos) \<Rightarrow>
               if repos = [] then (Inr (), print_line LogNoRepositories w0)
               else (Inr (), print_line LogDone (secret_repos P apiKey repos w0))))"

definition set_secrets_script ::
  "env \<Rightarrow> ('w, PublicKeyResponse) secrets_platform \<Rightarrow> string + loaded_config \<Rightarrow> 'w world
     \<Rightarrow> nat \<times> 'w world" where
  "set_secrets_script E P loaded w =
     (if unset (GITHUB_TOKEN E) then (1, print_line ErrTokenMissing w)
      else if unset (GEMINI_API_KEY E) then (1, print_line ErrKeyMissing w)
      else (case GEMINI_API_KEY E of
              None \<Rightarrow> (1, print_line ErrKeyMissing w)
            | Some apiKey \<Rightarrow>
                (case main_secrets P loaded apiKey w of
                   (Inl msg, w1) \<Rightarrow> (1, print_line (ErrFatal msg) w1)
                 | (Inr _, w1) \<Rightarrow> (0, w1))))"

section \<open>Vocabulary of the properties\<close>

text \<open>The requests a run issued: what it appended to the trace.\<close>

definition issued :: "'w world \<Rightarrow> 'w world \<Rightarrow> request list" where
  "issued w w' = drop (length (calls w)) (calls w')"

text \<open>
  The version token a request carries: the \<open>sha\<close> field of its body. A write to the
  contents of a path is a PUT: an update when it carries a token, a create when not.
\<close>

definition version_token :: "request \<Rightarrow> string option" where
  "version_token q = (case req_body q of None \<Rightarrow> None | Some kvs \<Rightarrow> map_of kvs ''sha'')"

definition body_field :: "request \<Rightarrow> string \<Rightarrow> string option" where
  "body_field q k = (case req_body q of None \<Rightarrow> None | Some kvs \<Rightarrow> map_of kvs k)"

definition is_write :: "request \<Rightarrow> bool" where
  "is_write q = (req_method q \<noteq> GET)"

definition is_update :: "request \<Rightarrow> bool" where
  "is_update q = (req_method q = PUT \<and> version_token q \<noteq> None)"

definition is_create :: "request \<Rightarrow> bool" where
  "is_create q = (req_method q = PUT \<and> version_token q = None)"

text \<open>The trace only grows: the calls before a run are a prefix of the calls after it.\<close>

definition grows :: "'w world \<Rightarrow> 'w world \<Rightarrow> bool" where
  "grows w w' = (take (length (calls w)) (calls w') = calls w)"

text \<open>Requests by what they address: the contents or the variables of a repository.\<close>

definition targets_contents :: "string \<Rightarrow> string \<Rightarrow> request \<Rightarrow> bool" where
  "targets_contents owner repo q =
     startsWith (req_endpoint q) (''/repos/'' @ owner @ ''/'' @ repo @ ''/contents/'')"

definition targets_variables :: "string \<Rightarrow> string \<Rightarrow> request \<Rightarrow> bool" where
  "targets_variables owner repo q =
     startsWith (req_endpoint q) (''/repos/'' @ owner @ ''/'' @ repo @ ''/actions/variables'')"

text \<open>
  The remote state holds the desired content of a file: the read of the path is
  answered with a file whose decoded content is the desired one, and the read leaves
  the remote state as it is. The remote state has converged for a repository when this
  holds for every file artifact of the run: the template of every workflow, and every
  file listed under the commands directory (none when the directory does not exist).
\<close>

definition up_to_date ::
  "('w, GitHubFileResponse) platform \<Rightarrow> string \<Rightarrow> string \<Rightarrow> string \<Rightarrow> 'w \<Rightarrow> string \<Rightarrow> string \<Rightarrow> bool" where
  "up_to_date P owner repo branch r filePath content =
     (case fetch P r (read_request (contents_endpoint owner repo filePath) branch) of
        (Rejected _, _) \<Rightarrow> False
      | (Response resp, r') \<Rightarrow>
          r' = r \<and> resp_ok resp \<and> resp_status resp \<noteq> 204
          \<and> resp_content_length resp \<noteq> Some ''0'' \<and> resp_body resp \<noteq> []
          \<and> (case JSON_parse P (resp_body resp) of
                Inl _ \<Rightarrow> False
              | Inr existing \<Rightarrow> fromBase64 P (file_content existing) = content))"

definition listed_commands :: "filesystem \<Rightarrow> (string \<times> (string + string)) list" where
  "listed_commands FS =
     (case getFilesRecursively ''.github/commands'' (fs_commands FS) [] of
        Inl _ \<Rightarrow> []
      | Inr commandFiles \<Rightarrow> commandFiles)"

definition command_up_to_date ::
  "('w, GitHubFileResponse) platform \<Rightarrow> string \<Rightarrow> string \<Rightarrow> string \<Rightarrow> 'w
     \<Rightarrow> string \<times> (string + string) \<Rightarrow> bool" where
  "command_up_to_date P owner repo branch r a =
     (case snd a of Inl _ \<Rightarrow> False | Inr c \<Rightarrow> up_to_date P owner repo branch r (fst a) c)"

definition workflow_up_to_date ::
  "('w, GitHubFileResponse) platform \<Rightarrow> filesystem \<Rightarrow> string \<Rightarrow> string \<Rightarrow> string \<Rightarrow> 'w \<Rightarrow> string \<Rightarrow> bool" where
  "workflow_up_to_date P FS owner repo branch r workflowName =
     (case fs_template FS workflowName of
        Inl _ \<Rightarrow> False
      | Inr t \<Rightarrow> up_to_date P owner repo branch r (workflow_path workflowName) t)"

definition converged ::
  "('w, GitHubFileResponse) platform \<Rightarrow> filesystem \<Rightarrow> string \<Rightarrow> string \<Rightarrow> string \<Rightarrow> string list \<Rightarrow> 'w \<Rightarrow> bool" where
  "converged P FS owner repo branch workflows r =
     (list_all (workflow_up_to_date P FS owner repo branch r) workflows
      \<and> (case getFilesRecursively ''.github/commands'' (fs_commands FS) [] of
            Inl msg \<Rightarrow> str_includes msg ''ENOENT''
          | Inr commandFiles \<Rightarrow> list_all (command_up_to_date P owner repo branch r) commandFiles))"

text \<open>The paths of the file artifacts of a run, in the order the run takes them.\<close>

definition artifact_paths :: "filesystem \<Rightarrow> string list \<Rightarrow> string list" where
  "artifact_paths FS workflows =
     concat (map (\<lambda>workflowName. workflow_path workflowName # map fst (listed_commands FS)) workflows)"

text \<open>A variable is updated with PATCH and created with POST.\<close>

definition is_variable_update :: "request \<Rightarrow> bool" where
  "is_variable_update q = (req_method q = PATCH)"

definition is_variable_create :: "request \<Rightarrow> bool" where
  "is_variable_create q = (req_method q = POST)"

section \<open>Test doubles\<close>

text \<open>
  Concrete stand-ins for what the scripts take from outside, to run the model on
  examples. Base64 is the standard one over bytes; the decoder skips every character
  outside the alphabet.
\<close>

definition b64_char :: "nat \<Rightarrow> char" where
  "b64_char n =
     (if n < 26 then char_of (65 + n)
      else if n < 52 then char_of (71 + n)
      else if n < 62 then char_of (n - 4)
      else if n = 62 then CHR ''+'' else CHR ''/'')"

fun b64_encode :: "nat list \<Rightarrow> string" where
  "b64_encode [] = []"
| "b64_encode [a] = [b64_char (a div 4), b64_char ((a mod 4) * 16), CHR ''='', CHR ''='']"
| "b64_encode [a, b] =
     [b64_char (a div 4), b64_char ((a mod 4) * 16 + b div 16), b64_char ((b mod 16) * 4), CHR ''='']"
| "b64_encode (a # b # c # rest) =
     [b64_char (a div 4), b64_char ((a mod 4) * 16 + b div 16),
      b64_char ((b mod 16) * 4 + c div 64), b64_char (c mod 64)] @ b64_encode rest"

definition b64_value :: "char \<Rightarrow> nat option" where
  "b64_value c =
     (let n = (of_char c :: nat) in
      if 65 \<le> n \<and> n \<le> 90 then Some (n - 65)
      else if 97 \<le> n \<and> n \<le> 122 then Some (n - 71)
      else if 48 \<le> n \<and> n \<le> 57 then Some (n + 4)
      else if c = CHR ''+'' then Some 62
      else if c = CHR ''/'' then Some 63
      else None)"

fun b64_bytes :: "nat list \<Rightarrow> nat list" where
  "b64_bytes (a # b # c # d # rest) =
     [a * 4 + b div 16, (b mod 16) * 16 + c div 4, (c mod 4) * 64 + d] @ b64_bytes rest"
| "b64_bytes [a, b, c] = [a * 4 + b div 16, (b mod 16) * 16 + c div 4]"
| "b64_bytes [a, b] = [a * 4 + b div 16]"
| "b64_bytes _ = []"

definition base64_encode :: "string \<Rightarrow> string" where
  "base64_encode s = b64_encode (map of_char s)"

definition base64_decode :: "string \<Rightarrow> string" where
  "base64_decode s = map char_of (b64_bytes (List.map_filter b64_value s))"

text \<open>
  The body of a file response is written \<open>sha|content\<close> by the doubles, and parsed back
  by splitting at the first bar.
\<close>

definition render_file :: "GitHubFileResponse \<Rightarrow> string" where
  "render_file f = file_sha f @ ''|'' @ file_content f"

definition parse_file :: "string \<Rightarrow> string + GitHubFileResponse" where
  "parse_file body =
     (let sha = takeWhile (\<lambda>c. c \<noteq> CHR ''|'') body in
      if length sha < length body
      then Inr \<lparr>file_content = drop (Suc (length sha)) body, file_sha = sha\<rparr>
      else Inl ''Unexpected end of JSON input'')"

definition json_response :: "nat \<Rightarrow> string \<Rightarrow> response" where
  "json_response st body =
     \<lparr>resp_status = st, resp_body = body, resp_content_length = None,
      resp_content_type = Some ''application/json; charset=utf-8''\<rparr>"

text \<open>A scripted transport: it answers the calls with the given results, in order.\<close>

definition scripted_fetch :: "fetch_result list \<Rightarrow> request \<Rightarrow> fetch_result \<times> fetch_result list" where
  "scripted_fetch rs req = (case rs of [] \<Rightarrow> (Rejected ''fetch failed'', []) | r # rest \<Rightarrow> (r, rest))"

definition scripted_platform :: "(fetch_result list, GitHubFileResponse) platform" where
  "scripted_platform =
     \<lparr>fetch = scripted_fetch, JSON_parse = parse_file,
      toBase64 = base64_encode, fromBase64 = base64_decode\<rparr>"

definition scripted_world :: "fetch_result list \<Rightarrow> fetch_result list world" where
  "scripted_world rs = \<lparr>remote = rs, calls = [], console = []\<rparr>"

text \<open>
  An in-memory store of file contents that keeps the contract of the contents
  interface: a read of an absent path is a 404; a PUT without a token creates an absent
  path and is refused on a present one; a PUT with a token replaces a present path when
  the token is the stored one and is a 409 when not. The key of a file is its endpoint
  with the branch.
\<close>

definition store_key :: "request \<Rightarrow> string" where
  "store_key req =
     (case req_body req of
        None \<Rightarrow> req_endpoint req
      | Some kvs \<Rightarrow> req_endpoint req @ ''?ref='' @ (case map_of kvs ''branch'' of None \<Rightarrow> ''main'' | Some b \<Rightarrow> b))"

definition stored_file :: "(string \<times> string) list \<Rightarrow> GitHubFileResponse" where
  "stored_file kvs =
     (let c = (case map_of kvs ''content'' of None \<Rightarrow> [] | Some c \<Rightarrow> c)
      in \<lparr>file_content = c, file_sha = ''sha-of-'' @ c\<rparr>)"

definition store_fetch ::
  "(string \<times> GitHubFileResponse) list \<Rightarrow> request \<Rightarrow> fetch_result \<times> (string \<times> GitHubFileResponse) list" where
  "store_fetch st req =
     (case req_method req of
        GET \<Rightarrow>
          (case map_of st (req_endpoint req) of
             None \<Rightarrow> (Response (json_response 404 ''Not Found''), st)
           | Some f \<Rightarrow> (Response (json_response 200 (render_file f)), st))
      | PUT \<Rightarrow>
          (case req_body req of
             None \<Rightarrow> (Response (json_response 422 ''Invalid request''), st)
           | Some kvs \<Rightarrow>
               (case (map_of st (store_key req), map_of kvs ''sha'') of
                  (None, None) \<Rightarrow>
                    (Response (json_response 201 (render_file (stored_file kvs))),
                     (store_key req, stored_file kvs) # st)
                | (None, Some s) \<Rightarrow> (Response (json_response 422 ''Invalid request''), st)
                | (Some f, None) \<Rightarrow> (Response (json_response 422 ''sha was not supplied''), st)
                | (Some f, Some s) \<Rightarrow>
                    if s = file_sha f
                    then (Response (json_response 200 (render_file (stored_file kvs))),
                          (store_key req, stored_file kvs) # st)
                    else (Response (json_response 409 ''does not match''), st)))
      | _ \<Rightarrow> (Response (json_response 404 ''Not Found''), st))"

definition store_platform :: "((string \<times> GitHubFileResponse) list, GitHubFileResponse) platform" where
  "store_platform =
     \<lparr>fetch = store_fetch, JSON_parse = parse_file,
      toBase64 = base64_encode, fromBase64 = base64_decode\<rparr>"

text \<open>
  The double of what set-secrets adds: the body of a public key response is written
  \<open>key_id|key\<close>. As tweetnacl-util does, the decoder throws on a string that is not
  padded base64; as the sealed box does, sealing throws on a key that is not 32 bytes
  long. The sealed value is a readable stand-in that names the key and the message.
\<close>

definition parse_key :: "string \<Rightarrow> string + PublicKeyResponse" where
  "parse_key body =
     (let kid = takeWhile (\<lambda>c. c \<noteq> CHR ''|'') body in
      if length kid < length body
      then Inr \<lparr>pk_key_id = kid, pk_key = drop (Suc (length kid)) body\<rparr>
      else Inl ''Unexpected end of JSON input'')"

definition strict_base64_decode :: "string \<Rightarrow> string + string" where
  "strict_base64_decode s =
     (if length s mod 4 = 0
         \<and> list_all (\<lambda>c. b64_value c \<noteq> None) (takeWhile (\<lambda>c. c \<noteq> CHR ''='') s)
         \<and> dropWhile (\<lambda>c. c \<noteq> CHR ''='') s \<in> {[], ''='', ''==''}
      then Inr (base64_decode s)
      else Inl ''invalid encoding'')"

definition toy_seal :: "fetch_result list \<Rightarrow> string \<Rightarrow> string \<Rightarrow> (string + string) \<times> fetch_result list" where
  "toy_seal r secretBytes publicKeyBytes =
     (if length publicKeyBytes = 32
      then (Inr (''sealed['' @ publicKeyBytes @ '']['' @ secretBytes @ '']''), r)
      else (Inl ''bad public key size'', r))"

definition scripted_secrets_platform :: "(fetch_result list, PublicKeyResponse) secrets_platform" where
  "scripted_secrets_platform =
     \<lparr>fetch = scripted_fetch, JSON_parse = parse_key,
      decodeBase64 = strict_base64_decode, TextEncoder_encode = (\<lambda>s. s),
      seal = toy_seal, nacl_encodeBase64 = base64_encode\<rparr>"

text \<open>
  Local files for the examples: the template \<open>ci\<close> with content \<open>A\<close>, and a commands
  directory with two files, one of them in a subdirectory.
\<close>

definition example_templates :: "string \<Rightarrow> string + string" where
  "example_templates workflowName =
     (if workflowName = ''ci'' then Inr ''A''
      else Inl (''ENOENT: no such file or directory, open templates/'' @ workflowName @ ''.yml''))"

definition example_commands :: directory where
  "example_commands =
     Listing [FileEnt ''review.toml'' (Inr ''R''),
              DirEnt ''sub'' (Listing [FileEnt ''triage.toml'' (Inr ''T'')])]"

definition example_fs :: "Config \<Rightarrow> filesystem" where
  "example_fs config =
     \<lparr>fs_config = Inr (YamlValue config), fs_template = example_templates,
      fs_commands = example_commands\<rparr>"

definition example_env :: env where
  "example_env = \<lparr>GITHUB_TOKEN = Some ''ghp_token'', GEMINI_API_KEY = Some ''secret''\<rparr>"

text \<open>
  The scenarios of one file: the repository \<open>acme/widgets\<close>, the path
  \<open>.github/workflows/ci.yml\<close>, the desired content \<open>A\<close>. The remote file is absent;
  holds \<open>A\<close> at version \<open>v1\<close>; holds \<open>B\<close> at version \<open>v2\<close>; holds \<open>AB\<close> (one byte
  more) at version \<open>v3\<close>; holds \<open>B\<close> and the update is refused with a 409; holds \<open>B\<close> and
  the update is answered 404; the read is answered 500 with a body that quotes 404.
\<close>

definition ci_path :: string where
  "ci_path = ''.github/workflows/ci.yml''"

definition ci_endpoint :: string where
  "ci_endpoint = ''/repos/acme/widgets/contents/.github/workflows/ci.yml''"

definition world_absent :: "fetch_result list world" where
  "world_absent =
     scripted_world [Response (json_response 404 ''Not Found''), Response (json_response 201 ''v1|QQ=='')]"

definition world_same :: "fetch_result list world" where
  "world_same = scripted_world [Response (json_response 200 ''v1|QQ=='')]"

definition world_differs :: "fetch_result list world" where
  "world_differs =
     scripted_world [Response (json_response 200 ''v2|Qg==''), Response (json_response 200 ''v3|QQ=='')]"

definition world_trailing :: "fetch_result list world" where
  "world_trailing =
     scripted_world [Response (json_response 200 ''v3|QUI=''), Response (json_response 200 ''v4|QQ=='')]"

definition world_conflict :: "fetch_result list world" where
  "world_conflict =
     scripted_world [Response (json_response 200 ''v2|Qg==''), Response (json_response 409 ''does not match'')]"

definition world_update_404 :: "fetch_result list world" where
  "world_update_404 =
     scripted_world [Response (json_response 200 ''v2|Qg==''), Response (json_response 404 ''Not Found''),
                     Response (json_response 201 ''v1|QQ=='')]"

definition world_500 :: "fetch_result list world" where
  "world_500 =
     scripted_world [Response (json_response 500 ''upstream said 404''), Response (json_response 201 ''v1|QQ=='')]"

text \<open>
  The scenarios of the variable \<open>RUNS_ON\<close> of \<open>acme/widgets\<close>: it is present; it is
  absent; it is present and the update is answered 404; the read is answered 500 with a
  body that quotes 404.
\<close>

definition var_present :: "fetch_result list world" where
  "var_present =
     scripted_world [Response (json_response 200 ''v|old''), Response (json_response 204 [])]"

definition var_absent :: "fetch_result list world" where
  "var_absent =
     scripted_world [Response (json_response 404 ''Not Found''), Response (json_response 201 [])]"

definition var_update_404 :: "fetch_result list world" where
  "var_update_404 =
     scripted_world [Response (json_response 200 ''v|old''), Response (json_response 404 ''Not Found''),
                     Response (json_response 201 [])]"

definition var_500 :: "fetch_result list world" where
  "var_500 =
     scripted_world [Response (json_response 500 ''upstream said 404''), Response (json_response 201 [])]"

text \<open>
  The scenarios of a whole repository: \<open>acme/widgets\<close> with the workflow \<open>ci\<close>, with
  and without \<open>runsOn\<close>. Its three file artifacts are the template and the two command
  files. In \<open>repo_var_fails\<close> the read of the variable throws and the three files are
  up to date; in \<open>repo_second_fails\<close> the read of the second artifact throws; in
  \<open>repo_first_fails\<close> the read of the first one does.
\<close>

definition widgets :: RepositoryConfig where
  "widgets = \<lparr>rc_name = ''acme/widgets'', rc_workflows = Some [''ci''], rc_branch = None, rc_runsOn = None\<rparr>"





text \<open>
  The scenarios of a secret: a public key of 32 bytes with identifier \<open>k1\<close> and a
  store that accepts the write; and a store that refuses the read of the public key.
\<close>

definition example_key :: string where
  "example_key = ''0123456789abcdef0123456789abcdef''"

definition secret_world :: "fetch_result list world" where
  "secret_world =
     scripted_world [Response (json_response 200 ''k1|MDEyMzQ1Njc4OWFiY2RlZjAxMjM0NTY3ODlhYmNkZWY=''),
                     Response (json_response 204 [])]"

definition secret_refused :: "fetch_result list world" where
  "secret_refused =
     scripted_world [Response (json_response 403 ''Resource not accessible by personal access token'')]"

text \<open>
  The scenarios of the configuration: the file is empty, so that \<open>yaml.load\<close> returns
  \<open>undefined\<close>.
\<close>

definition empty_file_fs :: filesystem where
  "empty_file_fs =
     \<lparr>fs_config = Inr YamlUndefined, fs_template = example_templates, fs_commands = example_commands\<rparr>"

text \<open>
  Two more scenarios of one file: the read throws without an answer; the read is
  answered 500 with a body that does not quote 404.
\<close>

definition world_hang_up :: "fetch_result list world" where
  "world_hang_up =
     scripted_world [Rejected ''socket hang up'', Response (json_response 201 ''v1|QQ=='')]"

definition world_500_plain :: "fetch_result list world" where
  "world_500_plain =
     scripted_world [Response (json_response 500 ''internal error''), Response (json_response 201 ''v1|QQ=='')]"

definition var_hang_up :: "fetch_result list world" where
  "var_hang_up =
     scripted_world [Rejected ''socket hang up'', Response (json_response 201 [])]"

text \<open>A first run against the in-memory store starts from a store with no file.\<close>

definition empty_store :: "(string \<times> GitHubFileResponse) list world" where
  "empty_store = \<lparr>remote = [], calls = [], console = []\<rparr>"

definition after_first_run :: "(string \<times> GitHubFileResponse) list world" where
  "after_first_run =
     snd (main store_platform (example_fs \<lparr>repositories = Some [widgets]\<rparr>) empty_store)"

section \<open>Properties\<close>

subsection \<open>What a call leaves in the trace\<close>

lemma githubRequest_calls:
  "githubRequest P req w = (res, w') \<Longrightarrow> calls w' = calls w @ [req]"
  by (auto simp: githubRequest_def Let_def split: prod.splits fetch_result.splits if_splits sum.splits)

lemma githubRequest_console:
  "githubRequest P req w = (res, w') \<Longrightarrow> console w' = console w"
  by (auto simp: githubRequest_def Let_def split: prod.splits fetch_result.splits if_splits sum.splits)

lemma calls_print_line [simp]: "calls (print_line l w) = calls w"
  by (simp add: print_line_def)

lemma remote_print_line [simp]: "remote (print_line l w) = remote w"
  by (simp add: print_line_def)

lemma console_print_line [simp]: "console (print_line l w) = console w @ [l]"
  by (simp add: print_line_def)

lemma buffer_type_error_no_404: "\<not> str_includes buffer_type_error ''404''"
  by code_simp

lemma syncFile_read_fails:
  assumes "githubRequest P (read_request (contents_endpoint owner repo filePath) branch) w = (Inl msg, w1)"
    and "\<not> str_includes msg ''404''"
  shows "syncFile P owner repo filePath content branch w = (Inl msg, w1)"
  using assms by (simp add: syncFile_def syncFile_try_def)

lemma syncFile_read_not_found:
  assumes "githubRequest P (read_request (contents_endpoint owner repo filePath) branch) w = (Inl msg, w1)"
    and "str_includes msg ''404''"
    and "githubRequest P (create_request P (contents_endpoint owner repo filePath) filePath content branch) w1 = (res, w2)"
  shows "syncFile P owner repo filePath content branch w =
           (case res of Inl msg2 \<Rightarrow> (Inl msg2, w2) | Inr _ \<Rightarrow> (Inr Created, print_line (LogCreated filePath) w2))"
  using assms by (simp add: syncFile_def syncFile_try_def split: sum.splits)

lemma syncFile_read_empty:
  assumes "githubRequest P (read_request (contents_endpoint owner repo filePath) branch) w = (Inr NoContent, w1)"
  shows "syncFile P owner repo filePath content branch w = (Inl buffer_type_error, w1)"
  using assms buffer_type_error_no_404 by (simp add: syncFile_def syncFile_try_def)

lemma syncFile_same:
  assumes "githubRequest P (read_request (contents_endpoint owner repo filePath) branch) w = (Inr (Parsed existing), w1)"
    and "fromBase64 P (file_content existing) = content"
  shows "syncFile P owner repo filePath content branch w = (Inr Unchanged, print_line (LogUpToDate filePath) w1)"
  using assms by (simp add: syncFile_def syncFile_try_def)

lemma syncFile_differs:
  assumes "githubRequest P (read_request (contents_endpoint owner repo filePath) branch) w = (Inr (Parsed existing), w1)"
    and "fromBase64 P (file_content existing) \<noteq> content"
    and "githubRequest P (update_request P (contents_endpoint owner repo filePath) filePath content (file_sha existing) branch) w1 = (res, w2)"
  shows "syncFile P owner repo filePath content branch w =
           (case res of
              Inr _ \<Rightarrow> (Inr Updated, print_line (LogUpdated filePath) w2)
            | Inl msg \<Rightarrow>
                if str_includes msg ''404''
                then (case githubRequest P (create_request P (contents_endpoint owner repo filePath) filePath content branch) w2 of
                        (Inl msg2, w3) \<Rightarrow> (Inl msg2, w3)
                      | (Inr _, w3) \<Rightarrow> (Inr Created, print_line (LogCreated filePath) w3))
                else (Inl msg, w2))"
  using assms by (simp add: syncFile_def syncFile_try_def split: sum.splits)


lemma issued_append: "calls w' = calls w @ xs \<Longrightarrow> issued w w' = xs"
  by (simp add: issued_def)

lemma syncFile_cases [consumes 1, case_names ReadFailed Absent Empty Same UpdateOk UpdateFailed UpdateNotFound]:
  assumes run: "syncFile P owner repo filePath content branch w = (res, w')"
  obtains
    msg where
      "githubRequest P (read_request (contents_endpoint owner repo filePath) branch) w = (Inl msg, w')"
      "\<not> str_includes msg ''404''" "res = Inl msg"
  | msg w1 r2 w2 where
      "githubRequest P (read_request (contents_endpoint owner repo filePath) branch) w = (Inl msg, w1)"
      "str_includes msg ''404''"
      "githubRequest P (create_request P (contents_endpoint owner repo filePath) filePath content branch) w1 = (r2, w2)"
      "res = (case r2 of Inl m \<Rightarrow> Inl m | Inr _ \<Rightarrow> Inr Created)"
      "w' = (case r2 of Inl _ \<Rightarrow> w2 | Inr _ \<Rightarrow> print_line (LogCreated filePath) w2)"
  | "githubRequest P (read_request (contents_endpoint owner repo filePath) branch) w = (Inr NoContent, w')"
      "res = Inl buffer_type_error"
  | existing w1 where
      "githubRequest P (read_request (contents_endpoint owner repo filePath) branch) w = (Inr (Parsed existing), w1)"
      "fromBase64 P (file_content existing) = content"
      "res = Inr Unchanged" "w' = print_line (LogUpToDate filePath) w1"
  | existing w1 x w2 where
      "githubRequest P (read_request (contents_endpoint owner repo filePath) branch) w = (Inr (Parsed existing), w1)"
      "fromBase64 P (file_content existing) \<noteq> content"
      "githubRequest P (update_request P (contents_endpoint owner repo filePath) filePath content (file_sha existing) branch) w1 = (Inr x, w2)"
      "res = Inr Updated" "w' = print_line (LogUpdated filePath) w2"
  | existing w1 msg where
      "githubRequest P (read_request (contents_endpoint owner repo filePath) branch) w = (Inr (Parsed existing), w1)"
      "fromBase64 P (file_content existing) \<noteq> content"
      "githubRequest P (update_request P (contents_endpoint owner repo filePath) filePath content (file_sha existing) branch) w1 = (Inl msg, w')"
      "\<not> str_includes msg ''404''" "res = Inl msg"
  | existing w1 msg w2 r3 w3 where
      "githubRequest P (read_request (contents_endpoint owner repo filePath) branch) w = (Inr (Parsed existing), w1)"
      "fromBase64 P (file_content existing) \<noteq> content"
      "githubRequest P (update_request P (contents_endpoint owner repo filePath) filePath content (file_sha existing) branch) w1 = (Inl msg, w2)"
      "str_includes msg ''404''"
      "githubRequest P (create_request P (contents_endpoint owner repo filePath) filePath content branch) w2 = (r3, w3)"
      "res = (case r3 of Inl m \<Rightarrow> Inl m | Inr _ \<Rightarrow> Inr Created)"
      "w' = (case r3 of Inl _ \<Rightarrow> w3 | Inr _ \<Rightarrow> print_line (LogCreated filePath) w3)"
proof -
  let ?ep = "contents_endpoint owner repo filePath"
  obtain r0 w1 where rd: "githubRequest P (read_request ?ep branch) w = (r0, w1)"
    by (cases "githubRequest P (read_request ?ep branch) w")
  show thesis
  proof (cases r0)
    case (Inl msg)
    show thesis
    proof (cases "str_includes msg ''404''")
      case False
      with rd Inl run syncFile_read_fails[of P owner repo filePath branch w msg w1 content]
      show thesis using that(1) by auto
    next
      case True
      obtain r2 w2 where cr: "githubRequest P (create_request P ?ep filePath content branch) w1 = (r2, w2)"
        by (cases "githubRequest P (create_request P ?ep filePath content branch) w1")
      from rd Inl True cr run syncFile_read_not_found[of P owner repo filePath branch w msg w1 content r2 w2]
      show thesis using that(2)[of msg w1 r2 w2] by (auto split: sum.splits)
    qed
  next
    case (Inr rep)
    show thesis
    proof (cases rep)
      case NoContent
      with rd Inr run syncFile_read_empty[of P owner repo filePath branch w w1 content]
      show thesis using that(3) by auto
    next
      case (Parsed existing)
      show thesis
      proof (cases "fromBase64 P (file_content existing) = content")
        case True
        with rd Inr Parsed run syncFile_same[of P owner repo filePath branch w existing w1 content]
        show thesis using that(4)[of existing w1] by auto
      next
        case False
        obtain r2 w2 where up: "githubRequest P (update_request P ?ep filePath content (file_sha existing) branch) w1 = (r2, w2)"
          by (cases "githubRequest P (update_request P ?ep filePath content (file_sha existing) branch) w1")
        note eq = syncFile_differs[of P owner repo filePath branch w existing w1 content r2 w2]
        show thesis
        proof (cases r2)
          case (Inr x)
          with rd \<open>r0 = Inr rep\<close> Parsed False up run eq
          show thesis using that(5)[of existing w1 x w2] by auto
        next
          case (Inl msg)
          show thesis
          proof (cases "str_includes msg ''404''")
            case nf: False
            with rd \<open>r0 = Inr rep\<close> Parsed False up run eq Inl
            show thesis using that(6)[of existing w1 msg] by auto
          next
            case nf: True
            obtain r3 w3 where cr: "githubRequest P (create_request P ?ep filePath content branch) w2 = (r3, w3)"
              by (cases "githubRequest P (create_request P ?ep filePath content branch) w2")
            with rd \<open>r0 = Inr rep\<close> Parsed False up run eq Inl nf
            show thesis using that(7)[of existing w1 msg w2 r3 w3] by (auto split: sum.splits)
          qed
        qed
      qed
    qed
  qed
qed

lemma is_update_read [simp]: "\<not> is_update (read_request ep b)"
  by (simp add: is_update_def read_request_def)

lemma is_update_create [simp]: "\<not> is_update (create_request P ep p c b)"
  by (simp add: is_update_def create_request_def version_token_def)

lemma is_create_create [simp]: "is_create (create_request P ep p c b)"
  by (simp add: is_create_def create_request_def version_token_def)

lemma is_update_update [simp]: "is_update (update_request P ep p c s b)"
  by (simp add: is_update_def update_request_def version_token_def)

lemma is_write_read [simp]: "\<not> is_write (read_request ep b)"
  by (simp add: is_write_def read_request_def)

lemma is_write_create [simp]: "is_write (create_request P ep p c b)"
  by (simp add: is_write_def create_request_def)

lemma is_write_update [simp]: "is_write (update_request P ep p c s b)"
  by (simp add: is_write_def update_request_def)

text \<open>The trace of one call of syncFile, by case.\<close>

lemma syncFile_issued:
  assumes run: "syncFile P owner repo filePath content branch w = (res, w')"
  shows "issued w w' = [read_request (contents_endpoint owner repo filePath) branch]
       \<or> (\<exists>msg w1. githubRequest P (read_request (contents_endpoint owner repo filePath) branch) w = (Inl msg, w1)
             \<and> issued w w' = [read_request (contents_endpoint owner repo filePath) branch,
                              create_request P (contents_endpoint owner repo filePath) filePath content branch])
       \<or> (\<exists>existing w1. githubRequest P (read_request (contents_endpoint owner repo filePath) branch) w = (Inr (Parsed existing), w1)
             \<and> fromBase64 P (file_content existing) \<noteq> content
             \<and> (issued w w' = [read_request (contents_endpoint owner repo filePath) branch,
                               update_request P (contents_endpoint owner repo filePath) filePath content (file_sha existing) branch]
                \<or> issued w w' = [read_request (contents_endpoint owner repo filePath) branch,
                               update_request P (contents_endpoint owner repo filePath) filePath content (file_sha existing) branch,
                               create_request P (contents_endpoint owner repo filePath) filePath content branch]))"
  using run
proof (cases rule: syncFile_cases)
  case (ReadFailed msg)
  then show ?thesis by (auto dest!: githubRequest_calls intro!: issued_append)
next
  case (Absent msg w1 r2 w2)
  from Absent(1,3) have "calls w2 = calls w @ [read_request (contents_endpoint owner repo filePath) branch,
        create_request P (contents_endpoint owner repo filePath) filePath content branch]"
    by (auto dest!: githubRequest_calls)
  with Absent(5) have "calls w' = calls w @ [read_request (contents_endpoint owner repo filePath) branch,
        create_request P (contents_endpoint owner repo filePath) filePath content branch]"
    by (auto split: sum.splits)
  with Absent(1) show ?thesis by (auto intro!: issued_append)
next
  case Empty
  then show ?thesis by (auto dest!: githubRequest_calls intro!: issued_append)
next
  case (Same existing w1)
  then show ?thesis by (auto dest!: githubRequest_calls intro!: issued_append)
next
  case (UpdateOk existing w1 x w2)
  from UpdateOk(1,3,5) have "calls w' = calls w @ [read_request (contents_endpoint owner repo filePath) branch,
     update_request P (contents_endpoint owner repo filePath) filePath content (file_sha existing) branch]"
    by (auto dest!: githubRequest_calls)
  with UpdateOk(1,2) show ?thesis by (auto intro!: issued_append)
next
  case (UpdateFailed existing w1 msg)
  from UpdateFailed(1,3) have "calls w' = calls w @ [read_request (contents_endpoint owner repo filePath) branch,
     update_request P (contents_endpoint owner repo filePath) filePath content (file_sha existing) branch]"
    by (auto dest!: githubRequest_calls)
  with UpdateFailed(1,2) show ?thesis by (auto intro!: issued_append)
next
  case (UpdateNotFound existing w1 msg w2 r3 w3)
  from UpdateNotFound(1,3,5) have "calls w3 = calls w @ [read_request (contents_endpoint owner repo filePath) branch,
     update_request P (contents_endpoint owner repo filePath) filePath content (file_sha existing) branch,
     create_request P (contents_endpoint owner repo filePath) filePath content branch]"
    by (auto dest!: githubRequest_calls)
  with UpdateNotFound(7) have "calls w' = calls w @ [read_request (contents_endpoint owner repo filePath) branch,
     update_request P (contents_endpoint owner repo filePath) filePath content (file_sha existing) branch,
     create_request P (contents_endpoint owner repo filePath) filePath content branch]"
    by (auto split: sum.splits)
  with UpdateNotFound(1,2) show ?thesis by (auto intro!: issued_append)
qed

subsection \<open>Messages that contain 404\<close>

lemma str_includes_Nil [simp]: "str_includes s []"
  by (cases s) (simp_all add: startsWith_def)

lemma str_includes_prefix: "str_includes (s @ b) s"
  by (cases s) (simp_all add: startsWith_def)

lemma str_includes_append_right: "str_includes b s \<Longrightarrow> str_includes (a @ b) s"
  by (induction a) simp_all

lemma startsWith_append: "startsWith a s \<Longrightarrow> startsWith (a @ b) s"
proof -
  assume a: "startsWith a s"
  then have "length (take (length s) a) = length s" by (simp add: startsWith_def)
  then have "length s \<le> length a" by simp
  with a show ?thesis by (simp add: startsWith_def)
qed

lemma str_includes_append_left: "str_includes a s \<Longrightarrow> str_includes (a @ b) s"
proof (induction a)
  case Nil
  then show ?case by (cases b) (simp_all add: startsWith_def)
next
  case (Cons c cs)
  from Cons.prems have "startsWith (c # cs) s \<or> str_includes cs s" by simp
  then show ?case
  proof
    assume "startsWith (c # cs) s"
    from startsWith_append[OF this, of b] show ?thesis by simp
  next
    assume "str_includes cs s"
    with Cons.IH show ?thesis by simp
  qed
qed

lemma show_nat_404: "show_nat 404 = ''404''"
  by code_simp

lemma githubRequest_error_status:
  assumes "fetch P (remote w) req = (Response resp, r1)" and "\<not> resp_ok resp"
  shows "githubRequest P req w =
           (Inl (''GitHub API error: '' @ show_nat (resp_status resp) @ '' '' @ resp_body resp),
            w\<lparr>remote := r1, calls := calls w @ [req]\<rparr>)"
  using assms by (simp add: githubRequest_def)

lemma not_found_message: "str_includes (''GitHub API error: '' @ ''404'' @ rest) ''404''"
  by (rule str_includes_append_right) (rule str_includes_prefix)

subsection \<open>The paths of setVariable\<close>

lemma setVariable_cases [consumes 1, case_names ReadFailed Absent UpdateOk UpdateFailed UpdateNotFound]:
  assumes run: "setVariable P owner repo variableName variableValue w = (res, w')"
  obtains
    msg where
      "githubRequest P (variable_read_request (variable_endpoint owner repo variableName)) w = (Inl msg, w')"
      "\<not> str_includes msg ''404''" "res = Inl msg"
  | msg w1 r2 where
      "githubRequest P (variable_read_request (variable_endpoint owner repo variableName)) w = (Inl msg, w1)"
      "str_includes msg ''404''"
      "githubRequest P (variable_create_request owner repo variableName variableValue) w1 = (r2, w')"
      "res = (case r2 of Inl m \<Rightarrow> Inl m | Inr _ \<Rightarrow> Inr ())"
  | x w1 y where
      "githubRequest P (variable_read_request (variable_endpoint owner repo variableName)) w = (Inr x, w1)"
      "githubRequest P (variable_update_request (variable_endpoint owner repo variableName) variableName variableValue) w1
         = (Inr y, w')"
      "res = Inr ()"
  | x w1 msg where
      "githubRequest P (variable_read_request (variable_endpoint owner repo variableName)) w = (Inr x, w1)"
      "githubRequest P (variable_update_request (variable_endpoint owner repo variableName) variableName variableValue) w1
         = (Inl msg, w')"
      "\<not> str_includes msg ''404''" "res = Inl msg"
  | x w1 msg w2 r3 where
      "githubRequest P (variable_read_request (variable_endpoint owner repo variableName)) w = (Inr x, w1)"
      "githubRequest P (variable_update_request (variable_endpoint owner repo variableName) variableName variableValue) w1
         = (Inl msg, w2)"
      "str_includes msg ''404''"
      "githubRequest P (variable_create_request owner repo variableName variableValue) w2 = (r3, w')"
      "res = (case r3 of Inl m \<Rightarrow> Inl m | Inr _ \<Rightarrow> Inr ())"
proof -
  let ?ep = "variable_endpoint owner repo variableName"
  obtain r0 w1 where rd: "githubRequest P (variable_read_request ?ep) w = (r0, w1)"
    by (cases "githubRequest P (variable_read_request ?ep) w")
  show thesis
  proof (cases r0)
    case (Inl msg)
    show thesis
    proof (cases "str_includes msg ''404''")
      case False
      with rd Inl run show thesis using that(1)[of msg]
        by (auto simp: setVariable_def setVariable_try_def)
    next
      case True
      obtain r2 w2 where cr: "githubRequest P (variable_create_request owner repo variableName variableValue) w1 = (r2, w2)"
        by (cases "githubRequest P (variable_create_request owner repo variableName variableValue) w1")
      with rd Inl True run show thesis using that(2)[of msg w1 r2]
        by (auto simp: setVariable_def setVariable_try_def split: sum.splits)
    qed
  next
    case (Inr x)
    obtain r2 w2 where up: "githubRequest P (variable_update_request ?ep variableName variableValue) w1 = (r2, w2)"
      by (cases "githubRequest P (variable_update_request ?ep variableName variableValue) w1")
    show thesis
    proof (cases r2)
      case inr: (Inr y)
      with rd Inr up run show thesis using that(3)[of x w1 y]
        by (auto simp: setVariable_def setVariable_try_def)
    next
      case (Inl msg)
      show thesis
      proof (cases "str_includes msg ''404''")
        case False
        with rd Inr up Inl run show thesis using that(4)[of x w1 msg]
          by (auto simp: setVariable_def setVariable_try_def)
      next
        case True
        obtain r3 w3 where cr: "githubRequest P (variable_create_request owner repo variableName variableValue) w2 = (r3, w3)"
          by (cases "githubRequest P (variable_create_request owner repo variableName variableValue) w2")
        with rd Inr up Inl True run show thesis using that(5)[of x w1 msg w2 r3]
          by (auto simp: setVariable_def setVariable_try_def split: sum.splits)
      qed
    qed
  qed
qed

lemma setVariable_issued:
  assumes run: "setVariable P owner repo variableName variableValue w = (res, w')"
  shows "issued w w' = [variable_read_request (variable_endpoint owner repo variableName)]
       \<or> ((\<exists>msg w1. githubRequest P (variable_read_request (variable_endpoint owner repo variableName)) w = (Inl msg, w1)
               \<and> str_includes msg ''404'')
            \<and> issued w w' = [variable_read_request (variable_endpoint owner repo variableName),
                              variable_create_request owner repo variableName variableValue])
       \<or> (\<exists>x w1 r2 w2.
             githubRequest P (variable_read_request (variable_endpoint owner repo variableName)) w = (Inr x, w1)
             \<and> githubRequest P (variable_update_request (variable_endpoint owner repo variableName) variableName variableValue) w1
                 = (r2, w2)
             \<and> (if (\<exists>msg. r2 = Inl msg \<and> str_includes msg ''404'')
                 then issued w w' = [variable_read_request (variable_endpoint owner repo variableName),
                        variable_update_request (variable_endpoint owner repo variableName) variableName variableValue,
                        variable_create_request owner repo variableName variableValue]
                 else issued w w' = [variable_read_request (variable_endpoint owner repo variableName),
                        variable_update_request (variable_endpoint owner repo variableName) variableName variableValue]))"
  using run
proof (cases rule: setVariable_cases)
  case (ReadFailed msg)
  then show ?thesis by (auto dest!: githubRequest_calls intro!: issued_append)
next
  case (Absent msg w1 r2)
  from Absent(1,3) have "calls w' = calls w @ [variable_read_request (variable_endpoint owner repo variableName),
                              variable_create_request owner repo variableName variableValue]"
    by (auto dest!: githubRequest_calls)
  then have "issued w w' = [variable_read_request (variable_endpoint owner repo variableName),
                              variable_create_request owner repo variableName variableValue]"
    by (rule issued_append)
  with Absent(1,2) show ?thesis by blast
next
  case (UpdateOk x w1 y)
  from UpdateOk(1,2) have "calls w' = calls w @ [variable_read_request (variable_endpoint owner repo variableName),
                        variable_update_request (variable_endpoint owner repo variableName) variableName variableValue]"
    by (auto dest!: githubRequest_calls)
  then have "issued w w' = [variable_read_request (variable_endpoint owner repo variableName),
                        variable_update_request (variable_endpoint owner repo variableName) variableName variableValue]"
    by (rule issued_append)
  with UpdateOk(1,2) show ?thesis by auto
next
  case (UpdateFailed x w1 msg)
  from UpdateFailed(1,2) have "calls w' = calls w @ [variable_read_request (variable_endpoint owner repo variableName),
                        variable_update_request (variable_endpoint owner repo variableName) variableName variableValue]"
    by (auto dest!: githubRequest_calls)
  then have "issued w w' = [variable_read_request (variable_endpoint owner repo variableName),
                        variable_update_request (variable_endpoint owner repo variableName) variableName variableValue]"
    by (rule issued_append)
  with UpdateFailed(1,2,3) show ?thesis by auto
next
  case (UpdateNotFound x w1 msg w2 r3)
  from UpdateNotFound(1,2,4) have "calls w' = calls w @ [variable_read_request (variable_endpoint owner repo variableName),
                        variable_update_request (variable_endpoint owner repo variableName) variableName variableValue,
                        variable_create_request owner repo variableName variableValue]"
    by (auto dest!: githubRequest_calls)
  then have "issued w w' = [variable_read_request (variable_endpoint owner repo variableName),
                        variable_update_request (variable_endpoint owner repo variableName) variableName variableValue,
                        variable_create_request owner repo variableName variableValue]"
    by (rule issued_append)
  with UpdateNotFound(1,2,3) show ?thesis by auto
qed


lemma variable_request_kinds [simp]:
  "\<not> is_variable_update (variable_read_request ep)"
  "\<not> is_variable_create (variable_read_request ep)"
  "is_variable_update (variable_update_request ep n v)"
  "\<not> is_variable_create (variable_update_request ep n v)"
  "is_variable_create (variable_create_request ow re n v)"
  "\<not> is_variable_update (variable_create_request ow re n v)"
  by (simp_all add: is_variable_update_def is_variable_create_def variable_read_request_def
        variable_update_request_def variable_create_request_def)

lemma githubRequest_status_404:
  assumes "fetch P (remote w) req = (Response resp, r1)" and "resp_status resp = 404"
  shows "\<exists>msg. githubRequest P req w = (Inl msg, w\<lparr>remote := r1, calls := calls w @ [req]\<rparr>)
           \<and> str_includes msg ''404''"
proof -
  from assms(2) have "\<not> resp_ok resp" by (simp add: resp_ok_def)
  from githubRequest_error_status[OF assms(1) this] assms(2)
  have "githubRequest P req w
          = (Inl (''GitHub API error: '' @ ''404'' @ '' '' @ resp_body resp),
             w\<lparr>remote := r1, calls := calls w @ [req]\<rparr>)"
    by (simp add: show_nat_404)
  with not_found_message show ?thesis by blast
qed

lemma error_message_includes:
  "str_includes body ''404'' \<Longrightarrow> str_includes (''GitHub API error: '' @ st @ '' '' @ body) ''404''"
  by (intro str_includes_append_right)

lemma issued_same [simp]:
  "issued w (print_line l w) = []" "issued w w = []" "issued w (w\<lparr>console := c\<rparr>) = []"
  by (simp_all add: issued_def)

subsection \<open>The trace grows\<close>

lemma grows_iff: "grows w w' \<longleftrightarrow> (\<exists>xs. calls w' = calls w @ xs)"
proof
  assume "grows w w'"
  then have "calls w' = calls w @ drop (length (calls w)) (calls w')"
    by (metis append_take_drop_id grows_def)
  then show "\<exists>xs. calls w' = calls w @ xs" ..
next
  assume "\<exists>xs. calls w' = calls w @ xs"
  then show "grows w w'" by (auto simp: grows_def)
qed

lemma grows_refl [simp]: "grows w w"
  by (simp add: grows_def)

lemma grows_print_line [simp]: "grows w (print_line l w') \<longleftrightarrow> grows w w'"
  by (simp add: grows_def)


lemma grows_calls: "grows w w' \<Longrightarrow> calls w' = calls w @ issued w w'"
  by (auto simp: grows_iff issued_def)


lemma issued_print_line [simp]: "issued w (print_line l w') = issued w w'"
  by (simp add: issued_def)

lemma githubRequest_grows: "githubRequest P req w = (res, w') \<Longrightarrow> grows w w'"
  by (auto simp: grows_iff dest: githubRequest_calls)








subsection \<open>What the requests of a repository address\<close>

lemma startsWith_prefix [simp]: "startsWith (a @ b) a"
  by (simp add: startsWith_def)

lemma contents_requests_target [simp]:
  "targets_contents owner repo (read_request (contents_endpoint owner repo filePath) branch)"
  "targets_contents owner repo (update_request P (contents_endpoint owner repo filePath) filePath content sha branch)"
  "targets_contents owner repo (create_request P (contents_endpoint owner repo filePath) filePath content branch)"
proof -
  have e: "contents_endpoint owner repo filePath = (''/repos/'' @ owner @ ''/'' @ repo @ ''/contents/'') @ filePath"
    by (simp add: contents_endpoint_def)
  have a: "startsWith (((''/repos/'' @ owner @ ''/'' @ repo @ ''/contents/'') @ filePath) @ x)
             (''/repos/'' @ owner @ ''/'' @ repo @ ''/contents/'')" for x
    unfolding append_assoc[of "''/repos/'' @ owner @ ''/'' @ repo @ ''/contents/''" filePath x]
    by (rule startsWith_prefix)
  show "targets_contents owner repo (read_request (contents_endpoint owner repo filePath) branch)"
    unfolding targets_contents_def read_request_def e using a by simp
  from a[of "[]"] have b: "startsWith ((''/repos/'' @ owner @ ''/'' @ repo @ ''/contents/'') @ filePath)
             (''/repos/'' @ owner @ ''/'' @ repo @ ''/contents/'')" by simp
  show "targets_contents owner repo (update_request P (contents_endpoint owner repo filePath) filePath content sha branch)"
    unfolding targets_contents_def update_request_def e using b by simp
  show "targets_contents owner repo (create_request P (contents_endpoint owner repo filePath) filePath content branch)"
    unfolding targets_contents_def create_request_def e using b by simp
qed

lemma variable_requests_target [simp]:
  "targets_variables owner repo (variable_read_request (variable_endpoint owner repo variableName))"
  "targets_variables owner repo (variable_update_request (variable_endpoint owner repo variableName) variableName variableValue)"
  "targets_variables owner repo (variable_create_request owner repo variableName variableValue)"
proof -
  have e: "variable_endpoint owner repo variableName
             = (''/repos/'' @ owner @ ''/'' @ repo @ ''/actions/variables'') @ ''/'' @ variableName"
    by (simp add: variable_endpoint_def)
  show "targets_variables owner repo (variable_read_request (variable_endpoint owner repo variableName))"
    unfolding targets_variables_def variable_read_request_def e request.select_convs
    by (rule startsWith_prefix)
  show "targets_variables owner repo (variable_update_request (variable_endpoint owner repo variableName) variableName variableValue)"
    unfolding targets_variables_def variable_update_request_def e request.select_convs
    by (rule startsWith_prefix)
  have "startsWith ((''/repos/'' @ owner @ ''/'' @ repo @ ''/actions/variables'') @ [])
          (''/repos/'' @ owner @ ''/'' @ repo @ ''/actions/variables'')"
    by (rule startsWith_prefix)
  then show "targets_variables owner repo (variable_create_request owner repo variableName variableValue)"
    unfolding targets_variables_def variable_create_request_def request.select_convs by simp
qed









subsection \<open>The loop over the command files stops at the first failure\<close>


subsection \<open>A run over a converged remote state\<close>

lemma githubRequest_up_to_date:
  assumes "up_to_date P owner repo branch (remote w) filePath content"
  shows "\<exists>existing. githubRequest P (read_request (contents_endpoint owner repo filePath) branch) w
           = (Inr (Parsed existing),
              w\<lparr>calls := calls w @ [read_request (contents_endpoint owner repo filePath) branch]\<rparr>)
         \<and> fromBase64 P (file_content existing) = content"
  using assms
  by (auto simp: up_to_date_def githubRequest_def split: prod.splits fetch_result.splits sum.splits)

lemma syncFile_up_to_date:
  assumes "up_to_date P owner repo branch (remote w) filePath content"
  shows "syncFile P owner repo filePath content branch w
           = (Inr Unchanged,
              w\<lparr>calls := calls w @ [read_request (contents_endpoint owner repo filePath) branch],
                console := console w @ [LogUpToDate filePath]\<rparr>)"
proof -
  from githubRequest_up_to_date[OF assms] obtain existing where
    rd: "githubRequest P (read_request (contents_endpoint owner repo filePath) branch) w
           = (Inr (Parsed existing),
              w\<lparr>calls := calls w @ [read_request (contents_endpoint owner repo filePath) branch]\<rparr>)"
    and eq: "fromBase64 P (file_content existing) = content" by blast
  from syncFile_same[OF rd eq] show ?thesis by (simp add: print_line_def)
qed

lemma sync_commands_up_to_date:
  assumes "list_all (command_up_to_date P owner repo branch (remote w)) commandFiles"
  shows "sync_commands P owner repo branch commandFiles w
           = (Inr (),
              w\<lparr>calls := calls w @ map (\<lambda>p. read_request (contents_endpoint owner repo p) branch)
                                      (map fst commandFiles),
                console := console w @ map LogUpToDate (map fst commandFiles)\<rparr>)"
  using assms
proof (induction commandFiles arbitrary: w)
  case Nil
  then show ?case by simp
next
  case (Cons a commandFiles)
  obtain p rd where a: "a = (p, rd)" by (cases a)
  from Cons.prems a obtain c where rd: "rd = Inr c"
    and u: "up_to_date P owner repo branch (remote w) p c"
    by (cases rd) (auto simp: command_up_to_date_def)
  let ?w1 = "w\<lparr>calls := calls w @ [read_request (contents_endpoint owner repo p) branch],
                console := console w @ [LogUpToDate p]\<rparr>"
  from Cons.prems have "list_all (command_up_to_date P owner repo branch (remote ?w1)) commandFiles"
    by simp
  from Cons.IH[OF this] syncFile_up_to_date[OF u] a rd show ?case by simp
qed

lemma sync_workflow_up_to_date:
  assumes "converged P FS owner repo branch [wname] (remote w)"
  shows "sync_workflow P FS owner repo branch wname w
           = w\<lparr>calls := calls w @ map (\<lambda>p. read_request (contents_endpoint owner repo p) branch)
                                      (artifact_paths FS [wname]),
                console := console w @ map LogUpToDate (artifact_paths FS [wname])\<rparr>"
proof -
  from assms obtain t where t: "fs_template FS wname = Inr t"
    and u: "up_to_date P owner repo branch (remote w) (workflow_path wname) t"
    by (cases "fs_template FS wname") (auto simp: converged_def workflow_up_to_date_def)
  let ?w1 = "w\<lparr>calls := calls w @ [read_request (contents_endpoint owner repo (workflow_path wname)) branch],
                console := console w @ [LogUpToDate (workflow_path wname)]\<rparr>"
  note s = syncFile_up_to_date[OF u]
  show ?thesis
  proof (cases "getFilesRecursively ''.github/commands'' (fs_commands FS) []")
    case (Inl msg)
    with assms have "str_includes msg ''ENOENT''" by (simp add: converged_def)
    with Inl t s show ?thesis
      by (simp add: sync_workflow_def workflow_try_def commands_try_def artifact_paths_def listed_commands_def)
  next
    case (Inr fl)
    with assms have "list_all (command_up_to_date P owner repo branch (remote ?w1)) fl"
      by (simp add: converged_def)
    from sync_commands_up_to_date[OF this] Inr t s show ?thesis
      by (simp add: sync_workflow_def workflow_try_def commands_try_def artifact_paths_def listed_commands_def)
  qed
qed

lemma artifact_paths_Cons:
  "artifact_paths FS (wname # rest) = artifact_paths FS [wname] @ artifact_paths FS rest"
  by (simp add: artifact_paths_def)

lemma converged_Cons:
  "converged P FS owner repo branch (wname # rest) r
     \<longleftrightarrow> converged P FS owner repo branch [wname] r \<and> converged P FS owner repo branch rest r"
  unfolding converged_def
  by (cases "getFilesRecursively ''.github/commands'' (fs_commands FS) []") auto

lemma sync_workflows_up_to_date:
  assumes "converged P FS owner repo branch workflows (remote w)"
  shows "sync_workflows P FS owner repo branch workflows w
           = w\<lparr>calls := calls w @ map (\<lambda>p. read_request (contents_endpoint owner repo p) branch)
                                      (artifact_paths FS workflows),
                console := console w @ map LogUpToDate (artifact_paths FS workflows)\<rparr>"
  using assms
proof (induction workflows arbitrary: w)
  case Nil
  then show ?case by (simp add: artifact_paths_def)
next
  case (Cons wname rest)
  from Cons.prems have c1: "converged P FS owner repo branch [wname] (remote w)"
    and c2: "converged P FS owner repo branch rest (remote w)"
    using converged_Cons[of P FS owner repo branch wname rest "remote w"] by blast+
  let ?w1 = "w\<lparr>calls := calls w @ map (\<lambda>p. read_request (contents_endpoint owner repo p) branch)
                                      (artifact_paths FS [wname]),
                console := console w @ map LogUpToDate (artifact_paths FS [wname])\<rparr>"
  from c2 have "converged P FS owner repo branch rest (remote ?w1)" by simp
  from Cons.IH[OF this] sync_workflow_up_to_date[OF c1]
  show ?case by (simp add: artifact_paths_Cons[of FS wname rest])
qed

lemma githubRequest_secrets_calls:
  "githubRequest_secrets P req w = (res, w') \<Longrightarrow> calls w' = calls w @ [req]"
  by (auto simp: githubRequest_secrets_def Let_def split: prod.splits fetch_result.splits if_splits sum.splits)

subsection \<open>The trace of setSecret\<close>

lemma setSecret_sealed_write:
  assumes key: "getPublicKey P owner repo w = (Inr (Parsed publicKey), w1)"
      and enc: "encryptSecret P (pk_key publicKey) secretValue (remote w1) = (Inr encryptedValue, r2)"
      and run: "setSecret P owner repo secretName secretValue w = (res, w')"
  shows "issued w w' = [public_key_request owner repo,
                        secret_request owner repo secretName encryptedValue (pk_key_id publicKey)]
       \<and> filter is_write (issued w w')
           = [secret_request owner repo secretName encryptedValue (pk_key_id publicKey)]
       \<and> body_field (secret_request owner repo secretName encryptedValue (pk_key_id publicKey))
             ''encrypted_value'' = Some encryptedValue
       \<and> body_field (secret_request owner repo secretName encryptedValue (pk_key_id publicKey))
             ''key_id'' = Some (pk_key_id publicKey)
       \<and> (\<exists>publicKeyBytes sealed.
             decodeBase64 P (pk_key publicKey) = Inr publicKeyBytes
             \<and> seal P (remote w1) (TextEncoder_encode P secretValue) publicKeyBytes = (Inr sealed, r2)
             \<and> encryptedValue = nacl_encodeBase64 P sealed)"
proof -
  let ?put = "secret_request owner repo secretName encryptedValue (pk_key_id publicKey)"
  obtain r3 w3 where put: "githubRequest_secrets P ?put (w1\<lparr>remote := r2\<rparr>) = (r3, w3)"
    by (cases "githubRequest_secrets P ?put (w1\<lparr>remote := r2\<rparr>)")
  from key enc put run have w': "w' = w3"
    by (cases r3) (simp_all add: setSecret_def)
  from key have "calls w1 = calls w @ [public_key_request owner repo]"
    by (simp add: getPublicKey_def githubRequest_secrets_calls)
  with githubRequest_secrets_calls[OF put] w'
  have "calls w' = calls w @ [public_key_request owner repo, ?put]" by simp
  then have iss: "issued w w' = [public_key_request owner repo, ?put]" by (rule issued_append)
  have wr: "\<not> is_write (public_key_request owner repo)" "is_write ?put"
    by (simp_all add: is_write_def public_key_request_def secret_request_def)
  have bf: "body_field ?put ''encrypted_value'' = Some encryptedValue"
    "body_field ?put ''key_id'' = Some (pk_key_id publicKey)"
    by (simp_all add: body_field_def secret_request_def)
  from enc have sealed: "\<exists>publicKeyBytes sealed.
             decodeBase64 P (pk_key publicKey) = Inr publicKeyBytes
             \<and> seal P (remote w1) (TextEncoder_encode P secretValue) publicKeyBytes = (Inr sealed, r2)
             \<and> encryptedValue = nacl_encodeBase64 P sealed"
    by (auto simp: encryptSecret_def Let_def split: sum.splits prod.splits)
  show ?thesis using iss wr bf sealed by simp
qed

lemma setSecret_reads_only_the_key:
  assumes run: "setSecret P owner repo secretName secretValue w = (res, w')"
  shows "issued w w' \<noteq> [] \<and> hd (issued w w') = public_key_request owner repo
       \<and> filter (\<lambda>q. req_method q = GET) (issued w w') = [public_key_request owner repo]
       \<and> length (filter is_write (issued w w')) \<le> 1"
proof -
  let ?k = "public_key_request owner repo"
  have kg: "req_method ?k = GET" "\<not> is_write ?k"
    by (simp_all add: public_key_request_def is_write_def)
  obtain r1 w1 where key: "getPublicKey P owner repo w = (r1, w1)"
    by (cases "getPublicKey P owner repo w")
  then have c1: "calls w1 = calls w @ [?k]"
    by (simp add: getPublicKey_def githubRequest_secrets_calls)
  have one: ?thesis if "calls w' = calls w @ [?k]"
    using issued_append[OF that] kg by simp
  show ?thesis
  proof (cases r1)
    case (Inl msg)
    with key run c1 one show ?thesis by (simp add: setSecret_def)
  next
    case (Inr rep)
    show ?thesis
    proof (cases rep)
      case NoContent
      with Inr key run c1 one show ?thesis by (simp add: setSecret_def)
    next
      case (Parsed publicKey)
      obtain e r2 where enc: "encryptSecret P (pk_key publicKey) secretValue (remote w1) = (e, r2)"
        by (cases "encryptSecret P (pk_key publicKey) secretValue (remote w1)")
      show ?thesis
      proof (cases e)
        case (Inl msg)
        with Inr Parsed key enc run have "w' = w1\<lparr>remote := r2\<rparr>" by (simp add: setSecret_def)
        with c1 one show ?thesis by simp
      next
        case inr: (Inr encryptedValue)
        let ?put = "secret_request owner repo secretName encryptedValue (pk_key_id publicKey)"
        obtain r3 w3 where put: "githubRequest_secrets P ?put (w1\<lparr>remote := r2\<rparr>) = (r3, w3)"
          by (cases "githubRequest_secrets P ?put (w1\<lparr>remote := r2\<rparr>)")
        from Inr Parsed key enc inr put run have "w' = w3"
          by (cases r3) (simp_all add: setSecret_def)
        with githubRequest_secrets_calls[OF put] c1
        have "calls w' = calls w @ [?k, ?put]" by simp
        from issued_append[OF this] kg show ?thesis
          by (simp add: secret_request_def is_write_def)
      qed
    qed
  qed
qed

subsection \<open>The catch of syncFile and setVariable, by the message caught\<close>

lemma create_path_on_404:
  "(\<forall>resp r1. fetch P (remote w) req = (Response resp, r1) \<and> \<not> resp_ok resp
      \<longrightarrow> fst (githubRequest P req w)
            = Inl (''GitHub API error: '' @ show_nat (resp_status resp) @ '' '' @ resp_body resp))
   \<and> (\<forall>resp r1.
        fetch P (remote w) (read_request (contents_endpoint owner repo filePath) branch) = (Response resp, r1)
        \<and> \<not> resp_ok resp \<and> str_includes (resp_body resp) ''404''
        \<longrightarrow> issued w (snd (syncFile P owner repo filePath content branch w))
              = [read_request (contents_endpoint owner repo filePath) branch,
                 create_request P (contents_endpoint owner repo filePath) filePath content branch])
   \<and> (\<forall>existing w1 msg w2.
        githubRequest P (read_request (contents_endpoint owner repo filePath) branch) w
          = (Inr (Parsed existing), w1)
        \<and> fromBase64 P (file_content existing) \<noteq> content
        \<and> githubRequest P (update_request P (contents_endpoint owner repo filePath) filePath content
                             (file_sha existing) branch) w1 = (Inl msg, w2)
        \<and> str_includes msg ''404''
        \<longrightarrow> issued w (snd (syncFile P owner repo filePath content branch w))
              = [read_request (contents_endpoint owner repo filePath) branch,
                 update_request P (contents_endpoint owner repo filePath) filePath content
                   (file_sha existing) branch,
                 create_request P (contents_endpoint owner repo filePath) filePath content branch])
   \<and> (\<forall>resp r1.
        fetch P (remote w) (variable_read_request (variable_endpoint owner repo variableName))
          = (Response resp, r1)
        \<and> \<not> resp_ok resp \<and> str_includes (resp_body resp) ''404''
        \<longrightarrow> issued w (snd (setVariable P owner repo variableName variableValue w))
              = [variable_read_request (variable_endpoint owner repo variableName),
                 variable_create_request owner repo variableName variableValue])
   \<and> (\<forall>x w1 msg w2.
        githubRequest P (variable_read_request (variable_endpoint owner repo variableName)) w = (Inr x, w1)
        \<and> githubRequest P (variable_update_request (variable_endpoint owner repo variableName)
                             variableName variableValue) w1 = (Inl msg, w2)
        \<and> str_includes msg ''404''
        \<longrightarrow> issued w (snd (setVariable P owner repo variableName variableValue w))
              = [variable_read_request (variable_endpoint owner repo variableName),
                 variable_update_request (variable_endpoint owner repo variableName) variableName variableValue,
                 variable_create_request owner repo variableName variableValue])"
proof -
  let ?ep = "contents_endpoint owner repo filePath"
  let ?rd = "read_request ?ep branch"
  let ?cr = "create_request P ?ep filePath content branch"
  let ?vr = "variable_read_request (variable_endpoint owner repo variableName)"
  let ?vu = "variable_update_request (variable_endpoint owner repo variableName) variableName variableValue"
  let ?vc = "variable_create_request owner repo variableName variableValue"
  let ?sf = "syncFile P owner repo filePath content branch w"
  let ?sv = "setVariable P owner repo variableName variableValue w"
  have runf: "?sf = (fst ?sf, snd ?sf)" by simp
  have runv: "?sv = (fst ?sv, snd ?sv)" by simp
  have a: "fst (githubRequest P req w)
            = Inl (''GitHub API error: '' @ show_nat (resp_status resp) @ '' '' @ resp_body resp)"
    if "fetch P (remote w) req = (Response resp, r1)" "\<not> resp_ok resp" for resp r1
    using githubRequest_error_status[OF that] by simp
  have b: "issued w (snd ?sf) = [?rd, ?cr]"
    if f: "fetch P (remote w) ?rd = (Response resp, r1)" and nok: "\<not> resp_ok resp"
      and inc: "str_includes (resp_body resp) ''404''" for resp r1
  proof -
    note rd = githubRequest_error_status[OF f nok]
    note m = error_message_includes[OF inc, of "show_nat (resp_status resp)"]
    from runf show ?thesis
    proof (cases rule: syncFile_cases)
      case (Absent msg w1 r2 w2)
      from Absent(1,3) have "calls w2 = calls w @ [?rd, ?cr]" by (auto dest!: githubRequest_calls)
      with Absent(5) have "calls (snd ?sf) = calls w @ [?rd, ?cr]" by (auto split: sum.splits)
      then show ?thesis by (rule issued_append)
    qed (use rd m in auto)
  qed
  have c: "issued w (snd ?sf) = [?rd, update_request P ?ep filePath content (file_sha existing) branch, ?cr]"
    if rd: "githubRequest P ?rd w = (Inr (Parsed existing), w1)"
      and ne: "fromBase64 P (file_content existing) \<noteq> content"
      and up: "githubRequest P (update_request P ?ep filePath content (file_sha existing) branch) w1 = (Inl msg, w2)"
      and inc: "str_includes msg ''404''" for existing w1 msg w2
    using runf
  proof (cases rule: syncFile_cases)
    case (UpdateNotFound existing' w1' msg' w2' r3 w3)
    with rd have e: "existing' = existing" by simp
    from UpdateNotFound(1,3,5) e
    have "calls w3 = calls w @ [?rd, update_request P ?ep filePath content (file_sha existing) branch, ?cr]"
      by (auto dest!: githubRequest_calls)
    with UpdateNotFound(7)
    have "calls (snd ?sf) = calls w @ [?rd, update_request P ?ep filePath content (file_sha existing) branch, ?cr]"
      by (auto split: sum.splits)
    then show ?thesis by (rule issued_append)
  qed (use rd ne up inc in auto)
  have d: "issued w (snd ?sv) = [?vr, ?vc]"
    if f: "fetch P (remote w) ?vr = (Response resp, r1)" and nok: "\<not> resp_ok resp"
      and inc: "str_includes (resp_body resp) ''404''" for resp r1
  proof -
    note rd = githubRequest_error_status[OF f nok]
    note m = error_message_includes[OF inc, of "show_nat (resp_status resp)"]
    from runv show ?thesis
    proof (cases rule: setVariable_cases)
      case (Absent msg w1 r2)
      from Absent(1,3) have "calls (snd ?sv) = calls w @ [?vr, ?vc]" by (auto dest!: githubRequest_calls)
      then show ?thesis by (rule issued_append)
    qed (use rd m in auto)
  qed
  have e: "issued w (snd ?sv) = [?vr, ?vu, ?vc]"
    if rd: "githubRequest P ?vr w = (Inr x, w1)"
      and up: "githubRequest P ?vu w1 = (Inl msg, w2)"
      and inc: "str_includes msg ''404''" for x w1 msg w2
    using runv
  proof (cases rule: setVariable_cases)
    case (UpdateNotFound x' w1' msg' w2' r3)
    from UpdateNotFound(1,2,4) have "calls (snd ?sv) = calls w @ [?vr, ?vu, ?vc]"
      by (auto dest!: githubRequest_calls)
    then show ?thesis by (rule issued_append)
  qed (use rd up inc in auto)
  show ?thesis using a b c d e by blast
qed

lemma syncFile_read_failure_split:
  assumes rd: "githubRequest P (read_request (contents_endpoint owner repo filePath) branch) w = (Inl msg, w1)"
  shows "if str_includes msg ''404''
         then issued w (snd (syncFile P owner repo filePath content branch w))
                = [read_request (contents_endpoint owner repo filePath) branch,
                   create_request P (contents_endpoint owner repo filePath) filePath content branch]
         else syncFile P owner repo filePath content branch w = (Inl msg, w1)
              \<and> issued w (snd (syncFile P owner repo filePath content branch w))
                  = [read_request (contents_endpoint owner repo filePath) branch]"
proof (cases "str_includes msg ''404''")
  case True
  let ?sf = "syncFile P owner repo filePath content branch w"
  let ?rd = "read_request (contents_endpoint owner repo filePath) branch"
  let ?cr = "create_request P (contents_endpoint owner repo filePath) filePath content branch"
  obtain r2 w2 where cr: "githubRequest P ?cr w1 = (r2, w2)"
    by (cases "githubRequest P ?cr w1")
  from rd cr have "calls w2 = calls w @ [?rd, ?cr]" by (auto dest!: githubRequest_calls)
  moreover from syncFile_read_not_found[OF rd True cr]
  have "calls (snd ?sf) = calls w2" by (cases r2) simp_all
  ultimately have "issued w (snd ?sf) = [?rd, ?cr]" by (simp add: issued_append)
  with True show ?thesis by simp
next
  case False
  from githubRequest_calls[OF rd] have "issued w w1 = [read_request (contents_endpoint owner repo filePath) branch]"
    by (rule issued_append)
  with syncFile_read_fails[OF rd False, of content] False show ?thesis by simp
qed

lemma syncFile_update_failure_split:
  assumes rd: "githubRequest P (read_request (contents_endpoint owner repo filePath) branch) w
                 = (Inr (Parsed existing), w1)"
      and ne: "fromBase64 P (file_content existing) \<noteq> content"
      and up: "githubRequest P (update_request P (contents_endpoint owner repo filePath) filePath content
                                  (file_sha existing) branch) w1 = (Inl msg, w2)"
  shows "if str_includes msg ''404''
         then issued w (snd (syncFile P owner repo filePath content branch w))
                = [read_request (contents_endpoint owner repo filePath) branch,
                   update_request P (contents_endpoint owner repo filePath) filePath content
                     (file_sha existing) branch,
                   create_request P (contents_endpoint owner repo filePath) filePath content branch]
         else syncFile P owner repo filePath content branch w = (Inl msg, w2)
              \<and> issued w (snd (syncFile P owner repo filePath content branch w))
                  = [read_request (contents_endpoint owner repo filePath) branch,
                     update_request P (contents_endpoint owner repo filePath) filePath content
                       (file_sha existing) branch]"
proof -
  let ?sf = "syncFile P owner repo filePath content branch w"
  let ?rd = "read_request (contents_endpoint owner repo filePath) branch"
  let ?up = "update_request P (contents_endpoint owner repo filePath) filePath content (file_sha existing) branch"
  let ?cr = "create_request P (contents_endpoint owner repo filePath) filePath content branch"
  note eq = syncFile_differs[OF rd ne up]
  from rd up have c2: "calls w2 = calls w @ [?rd, ?up]" by (auto dest!: githubRequest_calls)
  show ?thesis
  proof (cases "str_includes msg ''404''")
    case True
    obtain r3 w3 where cr: "githubRequest P ?cr w2 = (r3, w3)"
      by (cases "githubRequest P ?cr w2")
    from githubRequest_calls[OF cr] c2 have "calls w3 = calls w @ [?rd, ?up, ?cr]" by simp
    moreover from eq True cr have "calls (snd ?sf) = calls w3" by (cases r3) simp_all
    ultimately have "issued w (snd ?sf) = [?rd, ?up, ?cr]" by (simp add: issued_append)
    with True show ?thesis by simp
  next
    case False
    with eq have "?sf = (Inl msg, w2)" by simp
    with c2 False show ?thesis by (simp add: issued_append)
  qed
qed

lemma setVariable_read_failure_split:
  assumes rd: "githubRequest P (variable_read_request (variable_endpoint owner repo variableName)) w
                 = (Inl msg, w1)"
  shows "if str_includes msg ''404''
         then issued w (snd (setVariable P owner repo variableName variableValue w))
                = [variable_read_request (variable_endpoint owner repo variableName),
                   variable_create_request owner repo variableName variableValue]
         else setVariable P owner repo variableName variableValue w = (Inl msg, w1)
              \<and> issued w (snd (setVariable P owner repo variableName variableValue w))
                  = [variable_read_request (variable_endpoint owner repo variableName)]"
proof -
  let ?sv = "setVariable P owner repo variableName variableValue w"
  let ?vr = "variable_read_request (variable_endpoint owner repo variableName)"
  let ?vc = "variable_create_request owner repo variableName variableValue"
  from githubRequest_calls[OF rd] have c1: "calls w1 = calls w @ [?vr]" .
  show ?thesis
  proof (cases "str_includes msg ''404''")
    case True
    obtain r2 w2 where cr: "githubRequest P ?vc w1 = (r2, w2)"
      by (cases "githubRequest P ?vc w1")
    from githubRequest_calls[OF cr] c1 have "calls w2 = calls w @ [?vr, ?vc]" by simp
    moreover from rd True cr have "calls (snd ?sv) = calls w2"
      by (cases r2) (simp_all add: setVariable_def setVariable_try_def)
    ultimately have "issued w (snd ?sv) = [?vr, ?vc]" by (simp add: issued_append)
    with True show ?thesis by simp
  next
    case False
    with rd have "?sv = (Inl msg, w1)" by (simp add: setVariable_def setVariable_try_def)
    with c1 False show ?thesis by (simp add: issued_append)
  qed
qed

lemma setVariable_update_failure_split:
  assumes rd: "githubRequest P (variable_read_request (variable_endpoint owner repo variableName)) w = (Inr x, w1)"
      and up: "githubRequest P (variable_update_request (variable_endpoint owner repo variableName)
                                  variableName variableValue) w1 = (Inl msg, w2)"
  shows "if str_includes msg ''404''
         then issued w (snd (setVariable P owner repo variableName variableValue w))
                = [variable_read_request (variable_endpoint owner repo variableName),
                   variable_update_request (variable_endpoint owner repo variableName) variableName variableValue,
                   variable_create_request owner repo variableName variableValue]
         else setVariable P owner repo variableName variableValue w = (Inl msg, w2)
              \<and> issued w (snd (setVariable P owner repo variableName variableValue w))
                  = [variable_read_request (variable_endpoint owner repo variableName),
                     variable_update_request (variable_endpoint owner repo variableName) variableName variableValue]"
proof -
  let ?sv = "setVariable P owner repo variableName variableValue w"
  let ?vr = "variable_read_request (variable_endpoint owner repo variableName)"
  let ?vu = "variable_update_request (variable_endpoint owner repo variableName) variableName variableValue"
  let ?vc = "variable_create_request owner repo variableName variableValue"
  from rd up have c2: "calls w2 = calls w @ [?vr, ?vu]" by (auto dest!: githubRequest_calls)
  show ?thesis
  proof (cases "str_includes msg ''404''")
    case True
    obtain r3 w3 where cr: "githubRequest P ?vc w2 = (r3, w3)"
      by (cases "githubRequest P ?vc w2")
    from githubRequest_calls[OF cr] c2 have "calls w3 = calls w @ [?vr, ?vu, ?vc]" by simp
    moreover from rd up True cr have "calls (snd ?sv) = calls w3"
      by (cases r3) (simp_all add: setVariable_def setVariable_try_def)
    ultimately have "issued w (snd ?sv) = [?vr, ?vu, ?vc]" by (simp add: issued_append)
    with True show ?thesis by simp
  next
    case False
    with rd up have "?sv = (Inl msg, w2)" by (simp add: setVariable_def setVariable_try_def)
    with c2 False show ?thesis by (simp add: issued_append)
  qed
qed

subsection \<open>setSecret when the key is refused\<close>

lemma setSecret_key_refused:
  assumes "getPublicKey P owner repo w = (Inl msg, w1)"
  shows "setSecret P owner repo secretName secretValue w = (Inl msg, w1)
       \<and> issued w w1 = [public_key_request owner repo]"
proof -
  from assms have "calls w1 = calls w @ [public_key_request owner repo]"
    by (simp add: getPublicKey_def githubRequest_secrets_calls)
  from issued_append[OF this] assms show ?thesis by (simp add: setSecret_def)
qed

subsection \<open>The scenarios, evaluated\<close>

lemma ex_world_differs_read:
  "githubRequest scripted_platform (read_request (contents_endpoint ''acme'' ''widgets'' ci_path) ''main'') world_differs
     = (Inr (Parsed \<lparr>file_content = ''Qg=='', file_sha = ''v2''\<rparr>),
        \<lparr>remote = [Response (json_response 200 ''v3|QQ=='')],
         calls = [read_request ci_endpoint ''main''], console = []\<rparr>)"
  by code_simp

lemma ex_world_differs_issued:
  "issued world_differs (snd (syncFile scripted_platform ''acme'' ''widgets'' ci_path ''A'' ''main'' world_differs))
     = [read_request ci_endpoint ''main'',
        \<lparr>req_method = PUT, req_endpoint = ci_endpoint,
         req_body = Some [(''message'', ''Update workflow: ci.yml''), (''content'', ''QQ==''),
                          (''sha'', ''v2''), (''branch'', ''main'')]\<rparr>]"
  by code_simp

lemma ex_world_absent_read:
  "githubRequest scripted_platform (read_request (contents_endpoint ''acme'' ''widgets'' ci_path) ''main'') world_absent
     = (Inl ''GitHub API error: 404 Not Found'',
        \<lparr>remote = [Response (json_response 201 ''v1|QQ=='')],
         calls = [read_request ci_endpoint ''main''], console = []\<rparr>)"
  by code_simp

lemma ex_world_absent_issued:
  "issued world_absent (snd (syncFile scripted_platform ''acme'' ''widgets'' ci_path ''A'' ''main'' world_absent))
     = [read_request ci_endpoint ''main'',
        \<lparr>req_method = PUT, req_endpoint = ci_endpoint,
         req_body = Some [(''message'', ''Add workflow: ci.yml''), (''content'', ''QQ==''),
                          (''branch'', ''main'')]\<rparr>]"
  by code_simp

lemma ex_world_absent_fetch:
  "fetch scripted_platform (remote world_absent)
     (read_request (contents_endpoint ''acme'' ''widgets'' ci_path) ''main'')
     = (Response (json_response 404 ''Not Found''), [Response (json_response 201 ''v1|QQ=='')])"
  by code_simp

lemma ex_world_absent_create:
  "githubRequest scripted_platform
     (create_request scripted_platform (contents_endpoint ''acme'' ''widgets'' ci_path) ci_path ''A'' ''main'')
     (world_absent\<lparr>remote := [Response (json_response 201 ''v1|QQ=='')],
        calls := calls world_absent @ [read_request (contents_endpoint ''acme'' ''widgets'' ci_path) ''main'']\<rparr>)
     = (Inr (Parsed \<lparr>file_content = ''QQ=='', file_sha = ''v1''\<rparr>),
        \<lparr>remote = [],
         calls = [read_request ci_endpoint ''main'',
                  create_request scripted_platform ci_endpoint ci_path ''A'' ''main''],
         console = []\<rparr>)"
  by code_simp

lemma ex_world_same_read:
  "githubRequest scripted_platform (read_request (contents_endpoint ''acme'' ''widgets'' ci_path) ''main'') world_same
     = (Inr (Parsed \<lparr>file_content = ''QQ=='', file_sha = ''v1''\<rparr>),
        \<lparr>remote = [], calls = [read_request ci_endpoint ''main''], console = []\<rparr>)"
  by code_simp

lemma ex_world_trailing_read:
  "githubRequest scripted_platform (read_request (contents_endpoint ''acme'' ''widgets'' ci_path) ''main'') world_trailing
     = (Inr (Parsed \<lparr>file_content = ''QUI='', file_sha = ''v3''\<rparr>),
        \<lparr>remote = [Response (json_response 200 ''v4|QQ=='')],
         calls = [read_request ci_endpoint ''main''], console = []\<rparr>)"
  by code_simp

lemma ex_world_trailing_update:
  "fst (githubRequest scripted_platform
     (update_request scripted_platform (contents_endpoint ''acme'' ''widgets'' ci_path) ci_path ''A''
        (file_sha \<lparr>file_content = ''QUI='', file_sha = ''v3''\<rparr>) ''main'')
     \<lparr>remote = [Response (json_response 200 ''v4|QQ=='')],
      calls = [read_request ci_endpoint ''main''], console = []\<rparr>)
     = Inr (Parsed \<lparr>file_content = ''QQ=='', file_sha = ''v4''\<rparr>)"
  by code_simp

lemma ex_decode_A: "fromBase64 scripted_platform (file_content \<lparr>file_content = ''QQ=='', file_sha = ''v1''\<rparr>) = ''A''"
  by code_simp

lemma ex_decode_AB: "fromBase64 scripted_platform (file_content \<lparr>file_content = ''QUI='', file_sha = ''v3''\<rparr>) = ''AB''"
  by code_simp

lemma ex_var_present_read:
  "githubRequest scripted_platform
          (variable_read_request (variable_endpoint ''acme'' ''widgets'' ''RUNS_ON'')) var_present
     = (Inr (Parsed \<lparr>file_content = ''old'', file_sha = ''v''\<rparr>),
        \<lparr>remote = [Response (json_response 204 [])],
         calls = [variable_read_request (variable_endpoint ''acme'' ''widgets'' ''RUNS_ON'')],
         console = []\<rparr>)"
  by code_simp

lemma ex_var_present_update:
  "githubRequest scripted_platform
     (variable_update_request (variable_endpoint ''acme'' ''widgets'' ''RUNS_ON'') ''RUNS_ON'' ''ubuntu-latest'')
        \<lparr>remote = [Response (json_response 204 [])],
         calls = [variable_read_request (variable_endpoint ''acme'' ''widgets'' ''RUNS_ON'')],
         console = []\<rparr>
     = (Inr NoContent,
        \<lparr>remote = [],
         calls = [variable_read_request (variable_endpoint ''acme'' ''widgets'' ''RUNS_ON''),
                  variable_update_request (variable_endpoint ''acme'' ''widgets'' ''RUNS_ON'') ''RUNS_ON'' ''ubuntu-latest''],
         console = []\<rparr>)"
  by code_simp

lemma ex_var_absent_fetch:
  "fetch scripted_platform (remote var_absent)
     (variable_read_request (variable_endpoint ''acme'' ''widgets'' ''RUNS_ON''))
     = (Response (json_response 404 ''Not Found''), [Response (json_response 201 [])])"
  by code_simp

lemma ex_world_500_fetch:
  "fetch scripted_platform (remote world_500)
     (read_request (contents_endpoint ''acme'' ''widgets'' ci_path) ''main'')
     = (Response (json_response 500 ''upstream said 404''), [Response (json_response 201 ''v1|QQ=='')])"
  by code_simp

lemma ex_var_500_fetch:
  "fetch scripted_platform (remote var_500)
     (variable_read_request (variable_endpoint ''acme'' ''widgets'' ''RUNS_ON''))
     = (Response (json_response 500 ''upstream said 404''), [Response (json_response 201 [])])"
  by code_simp

lemma ex_500_not_ok:
  "\<not> resp_ok (json_response 500 ''upstream said 404'')
   \<and> str_includes (resp_body (json_response 500 ''upstream said 404'')) ''404''"
  by code_simp

lemma ex_world_update_404_read:
  "githubRequest scripted_platform (read_request (contents_endpoint ''acme'' ''widgets'' ci_path) ''main'')
     world_update_404
     = (Inr (Parsed \<lparr>file_content = ''Qg=='', file_sha = ''v2''\<rparr>),
        \<lparr>remote = [Response (json_response 404 ''Not Found''), Response (json_response 201 ''v1|QQ=='')],
         calls = [read_request ci_endpoint ''main''], console = []\<rparr>)"
  by code_simp

lemma ex_world_update_404_update:
  "githubRequest scripted_platform
     (update_request scripted_platform (contents_endpoint ''acme'' ''widgets'' ci_path) ci_path ''A''
        (file_sha \<lparr>file_content = ''Qg=='', file_sha = ''v2''\<rparr>) ''main'')
     \<lparr>remote = [Response (json_response 404 ''Not Found''), Response (json_response 201 ''v1|QQ=='')],
      calls = [read_request ci_endpoint ''main''], console = []\<rparr>
     = (Inl ''GitHub API error: 404 Not Found'',
        \<lparr>remote = [Response (json_response 201 ''v1|QQ=='')],
         calls = [read_request ci_endpoint ''main'',
                  update_request scripted_platform ci_endpoint ci_path ''A'' ''v2'' ''main''],
         console = []\<rparr>)"
  by code_simp

lemma ex_decode_B:
  "fromBase64 scripted_platform (file_content \<lparr>file_content = ''Qg=='', file_sha = ''v2''\<rparr>) = ''B''
   \<and> str_includes ''GitHub API error: 404 Not Found'' ''404''"
  by code_simp










lemma ex_first_run:
  "console after_first_run
     = [LogTitle, LogRepository ''acme/widgets'', LogCreated ''.github/workflows/ci.yml'',
        LogCreated ''.github/commands/review.toml'', LogCreated ''.github/commands/sub/triage.toml'',
        LogDone]
   \<and> map fst (remote after_first_run)
     = [''/repos/acme/widgets/contents/.github/commands/sub/triage.toml?ref=main'',
        ''/repos/acme/widgets/contents/.github/commands/review.toml?ref=main'',
        ''/repos/acme/widgets/contents/.github/workflows/ci.yml?ref=main'']"
  by code_simp

lemma ex_first_run_converged:
  "converged store_platform (example_fs \<lparr>repositories = Some [widgets]\<rparr>) ''acme'' ''widgets'' ''main''
     [''ci''] (remote after_first_run)"
  by code_simp

lemma ex_artifact_paths:
  "artifact_paths (example_fs config) [''ci'']
     = [''.github/workflows/ci.yml'', ''.github/commands/review.toml'', ''.github/commands/sub/triage.toml'']"
  by (simp add: artifact_paths_def listed_commands_def example_fs_def example_commands_def workflow_path_def)

lemma ex_secret_key:
  "getPublicKey scripted_secrets_platform ''acme'' ''widgets'' secret_world
     = (Inr (Parsed \<lparr>pk_key_id = ''k1'', pk_key = ''MDEyMzQ1Njc4OWFiY2RlZjAxMjM0NTY3ODlhYmNkZWY=''\<rparr>),
        \<lparr>remote = [Response (json_response 204 [])],
         calls = [public_key_request ''acme'' ''widgets''], console = []\<rparr>)"
  by code_simp

lemma ex_secret_sealed:
  "encryptSecret scripted_secrets_platform
     (pk_key \<lparr>pk_key_id = ''k1'', pk_key = ''MDEyMzQ1Njc4OWFiY2RlZjAxMjM0NTY3ODlhYmNkZWY=''\<rparr>) ''secret''
     (remote \<lparr>remote = [Response (json_response 204 [])],
         calls = [public_key_request ''acme'' ''widgets''], console = []\<rparr>)
     = (Inr (base64_encode (''sealed['' @ example_key @ ''][secret]'')), [Response (json_response 204 [])])"
  by code_simp

lemma ex_key_size: "length example_key = 32 \<and> base64_encode example_key = ''MDEyMzQ1Njc4OWFiY2RlZjAxMjM0NTY3ODlhYmNkZWY=''"
  by code_simp

lemma ex_world_hang_up_read:
  "githubRequest scripted_platform (read_request (contents_endpoint ''acme'' ''widgets'' ci_path) ''main'')
     world_hang_up
     = (Inl ''socket hang up'',
        \<lparr>remote = [Response (json_response 201 ''v1|QQ=='')],
         calls = [read_request ci_endpoint ''main''], console = []\<rparr>)"
  by code_simp

lemma ex_world_500_plain_read:
  "githubRequest scripted_platform (read_request (contents_endpoint ''acme'' ''widgets'' ci_path) ''main'')
     world_500_plain
     = (Inl ''GitHub API error: 500 internal error'',
        \<lparr>remote = [Response (json_response 201 ''v1|QQ=='')],
         calls = [read_request ci_endpoint ''main''], console = []\<rparr>)"
  by code_simp

lemma ex_var_hang_up_read:
  "githubRequest scripted_platform (variable_read_request (variable_endpoint ''acme'' ''widgets'' ''RUNS_ON''))
     var_hang_up
     = (Inl ''socket hang up'',
        \<lparr>remote = [Response (json_response 201 [])],
         calls = [variable_read_request (variable_endpoint ''acme'' ''widgets'' ''RUNS_ON'')],
         console = []\<rparr>)"
  by code_simp

lemma ex_no_404:
  "\<not> str_includes ''socket hang up'' ''404''"
  "\<not> str_includes ''GitHub API error: 500 internal error'' ''404''"
  by code_simp+

subsection \<open>C1: an update carries the token of the read before it\<close>

text \<open>
  C1. In one call of \<open>syncFile\<close>, a PUT that carries a version token is the second
  request of the call, right after the read of the same path and branch; that read
  succeeded, and the token is the \<open>sha\<close> it returned. When the read did not return a
  file, every write of the call is a create: a PUT without a token.
\<close>

theorem syncFile_update_carries_observed_token:
  assumes run: "syncFile P owner repo filePath content branch w = (res, w')"
  shows "(\<forall>i < length (issued w w'). is_update (issued w w' ! i) \<longrightarrow>
            i = 1 \<and> issued w w' ! 0 = read_request (contents_endpoint owner repo filePath) branch \<and>
            (\<exists>existing w1.
               githubRequest P (read_request (contents_endpoint owner repo filePath) branch) w
                 = (Inr (Parsed existing), w1) \<and>
               issued w w' ! i
                 = update_request P (contents_endpoint owner repo filePath) filePath content
                     (file_sha existing) branch \<and>
               version_token (issued w w' ! i) = Some (file_sha existing)))
       \<and> ((\<nexists>existing w1.
               githubRequest P (read_request (contents_endpoint owner repo filePath) branch) w
                 = (Inr (Parsed existing), w1)) \<longrightarrow>
            (\<forall>q \<in> set (issued w w'). is_write q \<longrightarrow> is_create q))"
  using syncFile_issued[OF run]
  by (auto simp: less_Suc_eq nth_Cons' version_token_def update_request_def split: if_splits)

theorem syncFile_update_carries_observed_token_witness:
  "version_token (issued world_differs
       (snd (syncFile scripted_platform ''acme'' ''widgets'' ci_path ''A'' ''main'' world_differs)) ! 1)
     = Some ''v2''
   \<and> fst (githubRequest scripted_platform
         (read_request (contents_endpoint ''acme'' ''widgets'' ci_path) ''main'') world_differs)
     = Inr (Parsed \<lparr>file_content = ''Qg=='', file_sha = ''v2''\<rparr>)
   \<and> is_create (issued world_absent
       (snd (syncFile scripted_platform ''acme'' ''widgets'' ci_path ''A'' ''main'' world_absent)) ! 1)"
proof -
  let ?wd = "snd (syncFile scripted_platform ''acme'' ''widgets'' ci_path ''A'' ''main'' world_differs)"
  let ?wa = "snd (syncFile scripted_platform ''acme'' ''widgets'' ci_path ''A'' ''main'' world_absent)"
  have rund: "syncFile scripted_platform ''acme'' ''widgets'' ci_path ''A'' ''main'' world_differs
                = (fst (syncFile scripted_platform ''acme'' ''widgets'' ci_path ''A'' ''main'' world_differs), ?wd)"
    by simp
  have runa: "syncFile scripted_platform ''acme'' ''widgets'' ci_path ''A'' ''main'' world_absent
                = (fst (syncFile scripted_platform ''acme'' ''widgets'' ci_path ''A'' ''main'' world_absent), ?wa)"
    by simp
  note d = syncFile_update_carries_observed_token[OF rund]
  note a = syncFile_update_carries_observed_token[OF runa]
  have upd: "is_update (issued world_differs ?wd ! 1)"
    unfolding ex_world_differs_issued by (simp add: is_update_def version_token_def)
  have len: "1 < length (issued world_differs ?wd)"
    unfolding ex_world_differs_issued by simp
  from d upd len obtain existing w1 where
    rd: "githubRequest scripted_platform (read_request (contents_endpoint ''acme'' ''widgets'' ci_path) ''main'') world_differs
           = (Inr (Parsed existing), w1)"
    and tok: "version_token (issued world_differs ?wd ! 1) = Some (file_sha existing)"
    by blast
  from rd have ex: "existing = \<lparr>file_content = ''Qg=='', file_sha = ''v2''\<rparr>"
    unfolding ex_world_differs_read by simp
  have c1: "version_token (issued world_differs ?wd ! 1) = Some ''v2''"
    using tok ex by simp
  have c2: "fst (githubRequest scripted_platform
         (read_request (contents_endpoint ''acme'' ''widgets'' ci_path) ''main'') world_differs)
     = Inr (Parsed \<lparr>file_content = ''Qg=='', file_sha = ''v2''\<rparr>)"
    unfolding ex_world_differs_read by simp
  have noread: "\<nexists>existing w1. githubRequest scripted_platform
         (read_request (contents_endpoint ''acme'' ''widgets'' ci_path) ''main'') world_absent = (Inr (Parsed existing), w1)"
    unfolding ex_world_absent_read by simp
  have mem: "issued world_absent ?wa ! 1 \<in> set (issued world_absent ?wa)"
    unfolding ex_world_absent_issued by simp
  have wr: "is_write (issued world_absent ?wa ! 1)"
    unfolding ex_world_absent_issued by (simp add: is_write_def)
  from a noread mem wr have c3: "is_create (issued world_absent ?wa ! 1)" by blast
  show ?thesis using c1 c2 c3 by simp
qed

subsection \<open>C2: the gate of byte equality\<close>

text \<open>
  The read returns \<open>B\<close> at version \<open>v2\<close>, the desired content is \<open>A\<close>, and the store
  refuses the update with a 409: \<open>syncFile\<close> throws, so the outcome is not \<open>updated\<close>.
\<close>

theorem syncFile_update_refused_counterexample:
  "fst (githubRequest scripted_platform
          (read_request (contents_endpoint ''acme'' ''widgets'' ci_path) ''main'') world_conflict)
     = Inr (Parsed \<lparr>file_content = ''Qg=='', file_sha = ''v2''\<rparr>)
   \<and> fromBase64 scripted_platform ''Qg=='' = ''B''
   \<and> fst (syncFile scripted_platform ''acme'' ''widgets'' ci_path ''A'' ''main'' world_conflict)
     = Inl ''GitHub API error: 409 does not match''
   \<and> fst (syncFile scripted_platform ''acme'' ''widgets'' ci_path ''A'' ''main'' world_conflict)
     \<noteq> Inr Updated"
  by code_simp

text \<open>
  C2, amended. When the read returns a file, \<open>syncFile\<close> returns \<open>unchanged\<close> with no
  write exactly when the decoded remote content equals the desired content. When they
  differ it issues exactly one update, which carries the desired content and the token
  the read returned, and the outcome is never \<open>unchanged\<close>; when that update succeeds,
  it is the only write and the outcome is \<open>updated\<close>.
\<close>

theorem syncFile_read_succeeded:
  assumes read: "githubRequest P (read_request (contents_endpoint owner repo filePath) branch) w
                   = (Inr (Parsed existing), w1)"
      and run: "syncFile P owner repo filePath content branch w = (res, w')"
  shows "((res = Inr Unchanged \<and> filter is_write (issued w w') = [])
            \<longleftrightarrow> fromBase64 P (file_content existing) = content)
       \<and> (fromBase64 P (file_content existing) \<noteq> content \<longrightarrow>
            filter is_update (issued w w')
              = [update_request P (contents_endpoint owner repo filePath) filePath content
                   (file_sha existing) branch]
            \<and> body_field (update_request P (contents_endpoint owner repo filePath) filePath content
                   (file_sha existing) branch) ''content'' = Some (encodeBase64 P content)
            \<and> version_token (update_request P (contents_endpoint owner repo filePath) filePath content
                   (file_sha existing) branch) = Some (file_sha existing)
            \<and> res \<noteq> Inr Unchanged
            \<and> (\<forall>x w2. githubRequest P
                          (update_request P (contents_endpoint owner repo filePath) filePath content
                             (file_sha existing) branch) w1 = (Inr x, w2)
                       \<longrightarrow> res = Inr Updated
                           \<and> filter is_write (issued w w')
                               = [update_request P (contents_endpoint owner repo filePath) filePath content
                                    (file_sha existing) branch]))"
proof -
  let ?ep = "contents_endpoint owner repo filePath"
  have bf: "body_field (update_request P ?ep filePath content (file_sha existing) branch) ''content''
              = Some (encodeBase64 P content)"
    by (simp add: body_field_def update_request_def)
  have vt: "version_token (update_request P ?ep filePath content (file_sha existing) branch)
              = Some (file_sha existing)"
    by (simp add: version_token_def update_request_def)
  from run show ?thesis
  proof (cases rule: syncFile_cases)
    case (ReadFailed msg)
    with read show ?thesis by simp
  next
    case (Absent msg w1 r2 w2)
    with read show ?thesis by simp
  next
    case Empty
    with read show ?thesis by simp
  next
    case (Same existing' w1')
    with read have e: "existing' = existing" "w1' = w1" by simp_all
    from Same(1,4) have "calls w' = calls w @ [read_request ?ep branch]"
      by (auto dest!: githubRequest_calls)
    then have "issued w w' = [read_request ?ep branch]" by (rule issued_append)
    with Same e show ?thesis by simp
  next
    case (UpdateOk existing' w1' x w2)
    with read have e: "existing' = existing" "w1' = w1" by simp_all
    from UpdateOk(1,3,5) e
    have "calls w' = calls w @ [read_request ?ep branch,
            update_request P ?ep filePath content (file_sha existing) branch]"
      by (auto dest!: githubRequest_calls)
    then have "issued w w' = [read_request ?ep branch,
            update_request P ?ep filePath content (file_sha existing) branch]"
      by (rule issued_append)
    with UpdateOk e bf vt show ?thesis by simp
  next
    case (UpdateFailed existing' w1' msg)
    with read have e: "existing' = existing" "w1' = w1" by simp_all
    from UpdateFailed(1,3) e
    have "calls w' = calls w @ [read_request ?ep branch,
            update_request P ?ep filePath content (file_sha existing) branch]"
      by (auto dest!: githubRequest_calls)
    then have "issued w w' = [read_request ?ep branch,
            update_request P ?ep filePath content (file_sha existing) branch]"
      by (rule issued_append)
    with UpdateFailed e bf vt show ?thesis by simp
  next
    case (UpdateNotFound existing' w1' msg w2 r3 w3)
    with read have e: "existing' = existing" "w1' = w1" by simp_all
    from UpdateNotFound(1,3,5) e
    have "calls w3 = calls w @ [read_request ?ep branch,
            update_request P ?ep filePath content (file_sha existing) branch,
            create_request P ?ep filePath content branch]"
      by (auto dest!: githubRequest_calls)
    with UpdateNotFound(7)
    have "calls w' = calls w @ [read_request ?ep branch,
            update_request P ?ep filePath content (file_sha existing) branch,
            create_request P ?ep filePath content branch]"
      by (auto split: sum.splits)
    then have "issued w w' = [read_request ?ep branch,
            update_request P ?ep filePath content (file_sha existing) branch,
            create_request P ?ep filePath content branch]"
      by (rule issued_append)
    moreover from UpdateNotFound(6) have "res \<noteq> Inr Unchanged" by (auto split: sum.splits)
    ultimately show ?thesis using UpdateNotFound(2,3) e bf vt by simp
  qed
qed

theorem syncFile_read_succeeded_witness:
  "fst (syncFile scripted_platform ''acme'' ''widgets'' ci_path ''A'' ''main'' world_same) = Inr Unchanged
   \<and> filter is_write (issued world_same
         (snd (syncFile scripted_platform ''acme'' ''widgets'' ci_path ''A'' ''main'' world_same))) = []
   \<and> fst (syncFile scripted_platform ''acme'' ''widgets'' ci_path ''A'' ''main'' world_trailing) = Inr Updated
   \<and> filter is_write (issued world_trailing
         (snd (syncFile scripted_platform ''acme'' ''widgets'' ci_path ''A'' ''main'' world_trailing)))
       = [update_request scripted_platform (contents_endpoint ''acme'' ''widgets'' ci_path) ci_path ''A''
            ''v3'' ''main'']"
proof -
  have runs: "syncFile scripted_platform ''acme'' ''widgets'' ci_path ''A'' ''main'' world_same
               = (fst (syncFile scripted_platform ''acme'' ''widgets'' ci_path ''A'' ''main'' world_same),
                  snd (syncFile scripted_platform ''acme'' ''widgets'' ci_path ''A'' ''main'' world_same))"
    by simp
  have runt: "syncFile scripted_platform ''acme'' ''widgets'' ci_path ''A'' ''main'' world_trailing
               = (fst (syncFile scripted_platform ''acme'' ''widgets'' ci_path ''A'' ''main'' world_trailing),
                  snd (syncFile scripted_platform ''acme'' ''widgets'' ci_path ''A'' ''main'' world_trailing))"
    by simp
  note s = syncFile_read_succeeded[OF ex_world_same_read runs]
  note t = syncFile_read_succeeded[OF ex_world_trailing_read runt]
  from s ex_decode_A
  have a: "fst (syncFile scripted_platform ''acme'' ''widgets'' ci_path ''A'' ''main'' world_same) = Inr Unchanged
   \<and> filter is_write (issued world_same
         (snd (syncFile scripted_platform ''acme'' ''widgets'' ci_path ''A'' ''main'' world_same))) = []"
    by blast
  have ne: "fromBase64 scripted_platform (file_content \<lparr>file_content = ''QUI='', file_sha = ''v3''\<rparr>) \<noteq> ''A''"
    unfolding ex_decode_AB by simp
  obtain x w2 where up: "githubRequest scripted_platform
     (update_request scripted_platform (contents_endpoint ''acme'' ''widgets'' ci_path) ci_path ''A''
        (file_sha \<lparr>file_content = ''QUI='', file_sha = ''v3''\<rparr>) ''main'')
     \<lparr>remote = [Response (json_response 200 ''v4|QQ=='')],
      calls = [read_request ci_endpoint ''main''], console = []\<rparr> = (Inr x, w2)"
    using ex_world_trailing_update by (metis prod.collapse)
  from t ne up
  have b: "fst (syncFile scripted_platform ''acme'' ''widgets'' ci_path ''A'' ''main'' world_trailing) = Inr Updated
   \<and> filter is_write (issued world_trailing
         (snd (syncFile scripted_platform ''acme'' ''widgets'' ci_path ''A'' ''main'' world_trailing)))
       = [update_request scripted_platform (contents_endpoint ''acme'' ''widgets'' ci_path) ci_path ''A''
            (file_sha \<lparr>file_content = ''QUI='', file_sha = ''v3''\<rparr>) ''main'']"
    by blast
  show ?thesis using a b by simp
qed

subsection \<open>C3: an absent file is created\<close>

text \<open>
  C3. When the read is answered with status 404, \<open>syncFile\<close> issues the read and then
  exactly one write, a PUT without a version token that carries the desired content;
  when that write succeeds the outcome is \<open>created\<close>.
\<close>

theorem syncFile_not_found_creates:
  assumes read: "fetch P (remote w) (read_request (contents_endpoint owner repo filePath) branch)
                   = (Response resp, r1)"
      and nf: "resp_status resp = 404"
      and run: "syncFile P owner repo filePath content branch w = (res, w')"
  shows "issued w w' = [read_request (contents_endpoint owner repo filePath) branch,
                        create_request P (contents_endpoint owner repo filePath) filePath content branch]
       \<and> filter is_write (issued w w')
           = [create_request P (contents_endpoint owner repo filePath) filePath content branch]
       \<and> is_create (create_request P (contents_endpoint owner repo filePath) filePath content branch)
       \<and> body_field (create_request P (contents_endpoint owner repo filePath) filePath content branch)
             ''content'' = Some (encodeBase64 P content)
       \<and> (\<forall>x w2. githubRequest P
                     (create_request P (contents_endpoint owner repo filePath) filePath content branch)
                     (w\<lparr>remote := r1,
                        calls := calls w @ [read_request (contents_endpoint owner repo filePath) branch]\<rparr>)
                    = (Inr x, w2)
                  \<longrightarrow> res = Inr Created \<and> console w' = console w @ [LogCreated filePath])"
proof -
  let ?ep = "contents_endpoint owner repo filePath"
  let ?w1 = "w\<lparr>remote := r1, calls := calls w @ [read_request ?ep branch]\<rparr>"
  let ?msg = "''GitHub API error: '' @ ''404'' @ '' '' @ resp_body resp"
  from nf have "\<not> resp_ok resp" by (simp add: resp_ok_def)
  from githubRequest_error_status[OF read this] nf
  have rd: "githubRequest P (read_request ?ep branch) w = (Inl ?msg, ?w1)"
    by (simp add: show_nat_404)
  have inc: "str_includes ?msg ''404''" by (rule not_found_message)
  obtain r2 w2 where cr: "githubRequest P (create_request P ?ep filePath content branch) ?w1 = (r2, w2)"
    by (cases "githubRequest P (create_request P ?ep filePath content branch) ?w1")
  from syncFile_read_not_found[OF rd inc cr, of] run
  have eq: "(res, w') = (case r2 of Inl msg2 \<Rightarrow> (Inl msg2, w2)
                          | Inr _ \<Rightarrow> (Inr Created, print_line (LogCreated filePath) w2))"
    by simp
  from cr have c2: "calls w2 = calls w @ [read_request ?ep branch, create_request P ?ep filePath content branch]"
    by (auto dest!: githubRequest_calls)
  from cr have k2: "console w2 = console w"
    by (auto dest!: githubRequest_console)
  from eq c2 have "calls w' = calls w @ [read_request ?ep branch, create_request P ?ep filePath content branch]"
    by (cases r2) auto
  then have iss: "issued w w' = [read_request ?ep branch, create_request P ?ep filePath content branch]"
    by (rule issued_append)
  have bf: "body_field (create_request P ?ep filePath content branch) ''content'' = Some (encodeBase64 P content)"
    by (simp add: body_field_def create_request_def)
  from eq cr k2 have ok: "\<forall>x w2. githubRequest P (create_request P ?ep filePath content branch) ?w1 = (Inr x, w2)
                  \<longrightarrow> res = Inr Created \<and> console w' = console w @ [LogCreated filePath]"
    by (cases r2) auto
  show ?thesis using iss bf ok by simp
qed

theorem syncFile_not_found_creates_witness:
  "fst (syncFile scripted_platform ''acme'' ''widgets'' ci_path ''A'' ''main'' world_absent) = Inr Created
   \<and> filter is_write (issued world_absent
         (snd (syncFile scripted_platform ''acme'' ''widgets'' ci_path ''A'' ''main'' world_absent)))
       = [create_request scripted_platform (contents_endpoint ''acme'' ''widgets'' ci_path) ci_path ''A'' ''main'']
   \<and> body_field
         (create_request scripted_platform (contents_endpoint ''acme'' ''widgets'' ci_path) ci_path ''A'' ''main'')
         ''content'' = Some (base64_encode ''A'')"
proof -
  have run: "syncFile scripted_platform ''acme'' ''widgets'' ci_path ''A'' ''main'' world_absent
               = (fst (syncFile scripted_platform ''acme'' ''widgets'' ci_path ''A'' ''main'' world_absent),
                  snd (syncFile scripted_platform ''acme'' ''widgets'' ci_path ''A'' ''main'' world_absent))"
    by simp
  have nf: "resp_status (json_response 404 ''Not Found'') = 404"
    by (simp add: json_response_def)
  note t = syncFile_not_found_creates[OF ex_world_absent_fetch nf run]
  from t ex_world_absent_create
  have "fst (syncFile scripted_platform ''acme'' ''widgets'' ci_path ''A'' ''main'' world_absent) = Inr Created"
    by blast
  moreover have "encodeBase64 scripted_platform ''A'' = base64_encode ''A''"
    by (simp add: encodeBase64_def scripted_platform_def)
  ultimately show ?thesis using t by simp
qed

subsection \<open>C7: a variable is updated when present, created when absent\<close>

text \<open>
  The variable is present, and the update is answered 404 (the variable was deleted in
  between, or the token may read but not write): \<open>setVariable\<close> issues the update and
  then a create.
\<close>

theorem setVariable_update_404_counterexample:
  "fst (githubRequest scripted_platform
          (variable_read_request (variable_endpoint ''acme'' ''widgets'' ''RUNS_ON'')) var_update_404)
     = Inr (Parsed \<lparr>file_content = ''old'', file_sha = ''v''\<rparr>)
   \<and> filter is_variable_create
         (issued var_update_404 (snd (setVariable scripted_platform ''acme'' ''widgets'' ''RUNS_ON'' ''ubuntu-latest'' var_update_404)))
     = [variable_create_request ''acme'' ''widgets'' ''RUNS_ON'' ''ubuntu-latest'']
   \<and> filter is_variable_update
         (issued var_update_404 (snd (setVariable scripted_platform ''acme'' ''widgets'' ''RUNS_ON'' ''ubuntu-latest'' var_update_404)))
     = [variable_update_request (variable_endpoint ''acme'' ''widgets'' ''RUNS_ON'') ''RUNS_ON'' ''ubuntu-latest'']"
  by code_simp

text \<open>
  C7, amended. \<open>setVariable\<close> reads the variable first. When the read succeeds it issues
  exactly one update, which carries the given value whatever the read returned, and
  no create unless that update fails with a message that contains \<open>404\<close>. When the read is
  answered with status 404 it issues exactly one create and no update.
\<close>

theorem setVariable_update_or_create:
  assumes run: "setVariable P owner repo variableName variableValue w = (res, w')"
  shows "hd (issued w w') = variable_read_request (variable_endpoint owner repo variableName)
       \<and> issued w w' \<noteq> []
       \<and> (\<forall>x w1.
            githubRequest P (variable_read_request (variable_endpoint owner repo variableName)) w = (Inr x, w1)
            \<longrightarrow> filter is_variable_update (issued w w')
                  = [variable_update_request (variable_endpoint owner repo variableName) variableName variableValue]
                \<and> body_field (variable_update_request (variable_endpoint owner repo variableName)
                                variableName variableValue) ''value'' = Some variableValue
                \<and> (\<forall>r2 w2.
                      githubRequest P (variable_update_request (variable_endpoint owner repo variableName)
                                         variableName variableValue) w1 = (r2, w2)
                      \<and> (\<forall>msg. r2 = Inl msg \<longrightarrow> \<not> str_includes msg ''404'')
                      \<longrightarrow> filter is_variable_create (issued w w') = []))
       \<and> (\<forall>resp r1.
            fetch P (remote w) (variable_read_request (variable_endpoint owner repo variableName))
              = (Response resp, r1) \<and> resp_status resp = 404
            \<longrightarrow> filter is_variable_create (issued w w')
                  = [variable_create_request owner repo variableName variableValue]
                \<and> filter is_variable_update (issued w w') = []
                \<and> length (issued w w') = 2)"
proof -
  let ?vr = "variable_read_request (variable_endpoint owner repo variableName)"
  let ?vu = "variable_update_request (variable_endpoint owner repo variableName) variableName variableValue"
  let ?vc = "variable_create_request owner repo variableName variableValue"
  note iss = setVariable_issued[OF run]
  have a: "hd (issued w w') = ?vr \<and> issued w w' \<noteq> []"
    using iss by (auto split: if_splits)
  have bf: "body_field ?vu ''value'' = Some variableValue"
    by (simp add: body_field_def variable_update_request_def)
  have b: "filter is_variable_update (issued w w') = [?vu]
            \<and> (\<forall>r2 w2. githubRequest P ?vu w1 = (r2, w2) \<and> (\<forall>msg. r2 = Inl msg \<longrightarrow> \<not> str_includes msg ''404'')
                   \<longrightarrow> filter is_variable_create (issued w w') = [])"
    if rd: "githubRequest P ?vr w = (Inr x, w1)" for x w1
    using run
  proof (cases rule: setVariable_cases)
    case (UpdateOk x' w1' y)
    from UpdateOk(1,2) have "calls w' = calls w @ [?vr, ?vu]" by (auto dest!: githubRequest_calls)
    then have "issued w w' = [?vr, ?vu]" by (rule issued_append)
    then show ?thesis by simp
  next
    case (UpdateFailed x' w1' msg)
    from UpdateFailed(1,2) have "calls w' = calls w @ [?vr, ?vu]" by (auto dest!: githubRequest_calls)
    then have "issued w w' = [?vr, ?vu]" by (rule issued_append)
    then show ?thesis by simp
  next
    case (UpdateNotFound x' w1' msg w2 r3)
    from UpdateNotFound(1,2,4) have "calls w' = calls w @ [?vr, ?vu, ?vc]" by (auto dest!: githubRequest_calls)
    then have i: "issued w w' = [?vr, ?vu, ?vc]" by (rule issued_append)
    from UpdateNotFound(1) rd have "w1' = w1" by simp
    with UpdateNotFound(2,3) i show ?thesis by auto
  qed (use rd in auto)
  have c: "filter is_variable_create (issued w w') = [?vc]
            \<and> filter is_variable_update (issued w w') = [] \<and> length (issued w w') = 2"
    if f: "fetch P (remote w) ?vr = (Response resp, r1)" and nf: "resp_status resp = 404" for resp r1
  proof -
    from githubRequest_status_404[OF f nf] obtain msg
      where rd: "githubRequest P ?vr w = (Inl msg, w\<lparr>remote := r1, calls := calls w @ [?vr]\<rparr>)"
        and inc: "str_includes msg ''404''" by blast
    from run show ?thesis
    proof (cases rule: setVariable_cases)
      case (Absent msg' w1 r2)
      from Absent(1,3) have "calls w' = calls w @ [?vr, ?vc]" by (auto dest!: githubRequest_calls)
      then have "issued w w' = [?vr, ?vc]" by (rule issued_append)
      then show ?thesis by simp
    qed (use rd inc in auto)
  qed
  show ?thesis using a b bf c by blast
qed

theorem setVariable_update_or_create_witness:
  "filter is_variable_update
     (issued var_present (snd (setVariable scripted_platform ''acme'' ''widgets'' ''RUNS_ON'' ''ubuntu-latest'' var_present)))
     = [variable_update_request (variable_endpoint ''acme'' ''widgets'' ''RUNS_ON'') ''RUNS_ON'' ''ubuntu-latest'']
   \<and> filter is_variable_create
     (issued var_present (snd (setVariable scripted_platform ''acme'' ''widgets'' ''RUNS_ON'' ''ubuntu-latest'' var_present)))
     = []
   \<and> filter is_variable_create
     (issued var_absent (snd (setVariable scripted_platform ''acme'' ''widgets'' ''RUNS_ON'' ''ubuntu-latest'' var_absent)))
     = [variable_create_request ''acme'' ''widgets'' ''RUNS_ON'' ''ubuntu-latest'']
   \<and> filter is_variable_update
     (issued var_absent (snd (setVariable scripted_platform ''acme'' ''widgets'' ''RUNS_ON'' ''ubuntu-latest'' var_absent)))
     = []"
proof -
  have runp: "setVariable scripted_platform ''acme'' ''widgets'' ''RUNS_ON'' ''ubuntu-latest'' var_present
     = (fst (setVariable scripted_platform ''acme'' ''widgets'' ''RUNS_ON'' ''ubuntu-latest'' var_present),
        snd (setVariable scripted_platform ''acme'' ''widgets'' ''RUNS_ON'' ''ubuntu-latest'' var_present))"
    by simp
  have runa: "setVariable scripted_platform ''acme'' ''widgets'' ''RUNS_ON'' ''ubuntu-latest'' var_absent
     = (fst (setVariable scripted_platform ''acme'' ''widgets'' ''RUNS_ON'' ''ubuntu-latest'' var_absent),
        snd (setVariable scripted_platform ''acme'' ''widgets'' ''RUNS_ON'' ''ubuntu-latest'' var_absent))"
    by simp
  note p = setVariable_update_or_create[OF runp]
  note a = setVariable_update_or_create[OF runa]
  have ok: "\<forall>msg. (Inr NoContent :: string + GitHubFileResponse reply) = Inl msg \<longrightarrow> \<not> str_includes msg ''404''"
    by simp
  from p ex_var_present_read ex_var_present_update ok
  have c1: "filter is_variable_update
     (issued var_present (snd (setVariable scripted_platform ''acme'' ''widgets'' ''RUNS_ON'' ''ubuntu-latest'' var_present)))
     = [variable_update_request (variable_endpoint ''acme'' ''widgets'' ''RUNS_ON'') ''RUNS_ON'' ''ubuntu-latest'']
   \<and> filter is_variable_create
     (issued var_present (snd (setVariable scripted_platform ''acme'' ''widgets'' ''RUNS_ON'' ''ubuntu-latest'' var_present)))
     = []"
    by blast
  have nf: "resp_status (json_response 404 ''Not Found'') = 404"
    by (simp add: json_response_def)
  from a ex_var_absent_fetch nf
  have c2: "filter is_variable_create
     (issued var_absent (snd (setVariable scripted_platform ''acme'' ''widgets'' ''RUNS_ON'' ''ubuntu-latest'' var_absent)))
     = [variable_create_request ''acme'' ''widgets'' ''RUNS_ON'' ''ubuntu-latest'']
   \<and> filter is_variable_update
     (issued var_absent (snd (setVariable scripted_platform ''acme'' ''widgets'' ''RUNS_ON'' ''ubuntu-latest'' var_absent)))
     = []"
    by blast
  show ?thesis using c1 c2 by simp
qed

subsection \<open>C8: the variable first, then the files\<close>



subsection \<open>C4: a failure is isolated per workflow\<close>




subsection \<open>C5: the second run changes nothing\<close>

text \<open>
  C5. When the remote state has converged for a repository (as a first run leaves it,
  with nothing changed since), the file synchronisation of the repository issues one
  read per file artifact and no write, prints the line of the outcome \<open>unchanged\<close> for
  every artifact and nothing else, and leaves the remote state as it is.
\<close>

theorem second_run_changes_nothing:
  assumes "converged P FS owner repo branch workflows (remote w)"
  shows "remote (sync_workflows P FS owner repo branch workflows w) = remote w
       \<and> issued w (sync_workflows P FS owner repo branch workflows w)
           = map (\<lambda>p. read_request (contents_endpoint owner repo p) branch) (artifact_paths FS workflows)
       \<and> filter is_write (issued w (sync_workflows P FS owner repo branch workflows w)) = []
       \<and> console (sync_workflows P FS owner repo branch workflows w)
           = console w @ map LogUpToDate (artifact_paths FS workflows)"
  unfolding sync_workflows_up_to_date[OF assms]
  by (simp add: issued_def filter_empty_conv)

theorem second_run_changes_nothing_witness:
  "console after_first_run
     = [LogTitle, LogRepository ''acme/widgets'', LogCreated ''.github/workflows/ci.yml'',
        LogCreated ''.github/commands/review.toml'', LogCreated ''.github/commands/sub/triage.toml'',
        LogDone]
   \<and> filter is_write
         (issued after_first_run
            (sync_workflows store_platform (example_fs \<lparr>repositories = Some [widgets]\<rparr>)
               ''acme'' ''widgets'' ''main'' [''ci''] after_first_run)) = []
   \<and> console (sync_workflows store_platform (example_fs \<lparr>repositories = Some [widgets]\<rparr>)
               ''acme'' ''widgets'' ''main'' [''ci''] after_first_run)
     = console after_first_run
       @ [LogUpToDate ''.github/workflows/ci.yml'', LogUpToDate ''.github/commands/review.toml'',
          LogUpToDate ''.github/commands/sub/triage.toml'']
   \<and> remote (sync_workflows store_platform (example_fs \<lparr>repositories = Some [widgets]\<rparr>)
               ''acme'' ''widgets'' ''main'' [''ci''] after_first_run)
     = remote after_first_run"
  using second_run_changes_nothing[OF ex_first_run_converged] ex_first_run
  by (simp add: ex_artifact_paths)

subsection \<open>C9: not found is a substring test\<close>

text \<open>
  C9. The message \<open>githubRequest\<close> throws for a response that is not ok is the status in
  decimal, a space and the body, after a fixed prefix. What \<open>syncFile\<close> and \<open>setVariable\<close>
  do with a failure is decided by one test, whether the message caught contains \<open>404\<close>:
  when it does, the create is issued, and when it does not, the failure is thrown on
  as it is and nothing more is issued. This holds for a failure of the read and for a
  failure of the update. So a response of any status that is not ok, with a body that
  contains \<open>404\<close>, makes the read end in a create, and a failure of the update itself
  with such a message is followed by a create.
\<close>

theorem not_found_is_a_substring_test:
  "(\<forall>resp r1. fetch P (remote w) req = (Response resp, r1) \<and> \<not> resp_ok resp
      \<longrightarrow> fst (githubRequest P req w)
            = Inl (''GitHub API error: '' @ show_nat (resp_status resp) @ '' '' @ resp_body resp))
   \<and> (\<forall>resp r1.
        fetch P (remote w) (read_request (contents_endpoint owner repo filePath) branch) = (Response resp, r1)
        \<and> \<not> resp_ok resp \<and> str_includes (resp_body resp) ''404''
        \<longrightarrow> issued w (snd (syncFile P owner repo filePath content branch w))
              = [read_request (contents_endpoint owner repo filePath) branch,
                 create_request P (contents_endpoint owner repo filePath) filePath content branch])
   \<and> (\<forall>existing w1 msg w2.
        githubRequest P (read_request (contents_endpoint owner repo filePath) branch) w
          = (Inr (Parsed existing), w1)
        \<and> fromBase64 P (file_content existing) \<noteq> content
        \<and> githubRequest P (update_request P (contents_endpoint owner repo filePath) filePath content
                             (file_sha existing) branch) w1 = (Inl msg, w2)
        \<and> str_includes msg ''404''
        \<longrightarrow> issued w (snd (syncFile P owner repo filePath content branch w))
              = [read_request (contents_endpoint owner repo filePath) branch,
                 update_request P (contents_endpoint owner repo filePath) filePath content
                   (file_sha existing) branch,
                 create_request P (contents_endpoint owner repo filePath) filePath content branch])
   \<and> (\<forall>resp r1.
        fetch P (remote w) (variable_read_request (variable_endpoint owner repo variableName))
          = (Response resp, r1)
        \<and> \<not> resp_ok resp \<and> str_includes (resp_body resp) ''404''
        \<longrightarrow> issued w (snd (setVariable P owner repo variableName variableValue w))
              = [variable_read_request (variable_endpoint owner repo variableName),
                 variable_create_request owner repo variableName variableValue])
   \<and> (\<forall>x w1 msg w2.
        githubRequest P (variable_read_request (variable_endpoint owner repo variableName)) w = (Inr x, w1)
        \<and> githubRequest P (variable_update_request (variable_endpoint owner repo variableName)
                             variableName variableValue) w1 = (Inl msg, w2)
        \<and> str_includes msg ''404''
        \<longrightarrow> issued w (snd (setVariable P owner repo variableName variableValue w))
              = [variable_read_request (variable_endpoint owner repo variableName),
                 variable_update_request (variable_endpoint owner repo variableName) variableName variableValue,
                 variable_create_request owner repo variableName variableValue])
   \<and> (\<forall>msg w1.
        githubRequest P (read_request (contents_endpoint owner repo filePath) branch) w = (Inl msg, w1)
        \<longrightarrow> (if str_includes msg ''404''
             then issued w (snd (syncFile P owner repo filePath content branch w))
                    = [read_request (contents_endpoint owner repo filePath) branch,
                       create_request P (contents_endpoint owner repo filePath) filePath content branch]
             else syncFile P owner repo filePath content branch w = (Inl msg, w1)
                  \<and> issued w (snd (syncFile P owner repo filePath content branch w))
                      = [read_request (contents_endpoint owner repo filePath) branch]))
   \<and> (\<forall>existing w1 msg w2.
        githubRequest P (read_request (contents_endpoint owner repo filePath) branch) w
          = (Inr (Parsed existing), w1)
        \<and> fromBase64 P (file_content existing) \<noteq> content
        \<and> githubRequest P (update_request P (contents_endpoint owner repo filePath) filePath content
                             (file_sha existing) branch) w1 = (Inl msg, w2)
        \<and> \<not> str_includes msg ''404''
        \<longrightarrow> syncFile P owner repo filePath content branch w = (Inl msg, w2)
            \<and> issued w (snd (syncFile P owner repo filePath content branch w))
                = [read_request (contents_endpoint owner repo filePath) branch,
                   update_request P (contents_endpoint owner repo filePath) filePath content
                     (file_sha existing) branch])
   \<and> (\<forall>msg w1.
        githubRequest P (variable_read_request (variable_endpoint owner repo variableName)) w = (Inl msg, w1)
        \<longrightarrow> (if str_includes msg ''404''
             then issued w (snd (setVariable P owner repo variableName variableValue w))
                    = [variable_read_request (variable_endpoint owner repo variableName),
                       variable_create_request owner repo variableName variableValue]
             else setVariable P owner repo variableName variableValue w = (Inl msg, w1)
                  \<and> issued w (snd (setVariable P owner repo variableName variableValue w))
                      = [variable_read_request (variable_endpoint owner repo variableName)]))
   \<and> (\<forall>x w1 msg w2.
        githubRequest P (variable_read_request (variable_endpoint owner repo variableName)) w = (Inr x, w1)
        \<and> githubRequest P (variable_update_request (variable_endpoint owner repo variableName)
                             variableName variableValue) w1 = (Inl msg, w2)
        \<and> \<not> str_includes msg ''404''
        \<longrightarrow> setVariable P owner repo variableName variableValue w = (Inl msg, w2)
            \<and> issued w (snd (setVariable P owner repo variableName variableValue w))
                = [variable_read_request (variable_endpoint owner repo variableName),
                   variable_update_request (variable_endpoint owner repo variableName) variableName
                     variableValue])"
proof -
  have u: "syncFile P owner repo filePath content branch w = (Inl msg, w2)
            \<and> issued w (snd (syncFile P owner repo filePath content branch w))
                = [read_request (contents_endpoint owner repo filePath) branch,
                   update_request P (contents_endpoint owner repo filePath) filePath content
                     (file_sha existing) branch]"
    if "githubRequest P (read_request (contents_endpoint owner repo filePath) branch) w
          = (Inr (Parsed existing), w1)"
      "fromBase64 P (file_content existing) \<noteq> content"
      "githubRequest P (update_request P (contents_endpoint owner repo filePath) filePath content
                             (file_sha existing) branch) w1 = (Inl msg, w2)"
      "\<not> str_includes msg ''404''" for existing w1 msg w2
    using syncFile_update_failure_split[OF that(1,2,3)] that(4) by metis
  have v: "setVariable P owner repo variableName variableValue w = (Inl msg, w2)
            \<and> issued w (snd (setVariable P owner repo variableName variableValue w))
                = [variable_read_request (variable_endpoint owner repo variableName),
                   variable_update_request (variable_endpoint owner repo variableName) variableName
                     variableValue]"
    if "githubRequest P (variable_read_request (variable_endpoint owner repo variableName)) w = (Inr x, w1)"
      "githubRequest P (variable_update_request (variable_endpoint owner repo variableName)
                             variableName variableValue) w1 = (Inl msg, w2)"
      "\<not> str_includes msg ''404''" for x w1 msg w2
    using setVariable_update_failure_split[OF that(1,2)] that(3) by metis
  note old = create_path_on_404[of P w req owner repo filePath branch content variableName variableValue]
  note r = syncFile_read_failure_split[of P owner repo filePath branch w _ _ content]
  note s = setVariable_read_failure_split[of P owner repo variableName w _ _ variableValue]
  show ?thesis
    apply (intro conjI allI impI)
    using old apply blast
    using old apply blast
    using old apply blast
    using old apply blast
    using old apply blast
    using r apply blast
    using u apply blast
    using u apply blast
    using s apply blast
    using v apply blast
    using v apply blast
    done
qed

theorem not_found_is_a_substring_test_witness:
  "resp_status (json_response 500 ''upstream said 404'') = 500
   \<and> fst (githubRequest scripted_platform
            (read_request (contents_endpoint ''acme'' ''widgets'' ci_path) ''main'') world_500)
       = Inl (''GitHub API error: '' @ show_nat 500 @ '' '' @ ''upstream said 404'')
   \<and> issued world_500 (snd (syncFile scripted_platform ''acme'' ''widgets'' ci_path ''A'' ''main'' world_500))
       = [read_request (contents_endpoint ''acme'' ''widgets'' ci_path) ''main'',
          create_request scripted_platform (contents_endpoint ''acme'' ''widgets'' ci_path) ci_path ''A'' ''main'']
   \<and> fst (syncFile scripted_platform ''acme'' ''widgets'' ci_path ''A'' ''main'' world_500) = Inr Created
   \<and> issued world_update_404
         (snd (syncFile scripted_platform ''acme'' ''widgets'' ci_path ''A'' ''main'' world_update_404))
       = [read_request (contents_endpoint ''acme'' ''widgets'' ci_path) ''main'',
          update_request scripted_platform (contents_endpoint ''acme'' ''widgets'' ci_path) ci_path ''A''
            ''v2'' ''main'',
          create_request scripted_platform (contents_endpoint ''acme'' ''widgets'' ci_path) ci_path ''A'' ''main'']
   \<and> issued var_500 (snd (setVariable scripted_platform ''acme'' ''widgets'' ''RUNS_ON'' ''ubuntu-latest'' var_500))
       = [variable_read_request (variable_endpoint ''acme'' ''widgets'' ''RUNS_ON''),
          variable_create_request ''acme'' ''widgets'' ''RUNS_ON'' ''ubuntu-latest'']
   \<and> syncFile scripted_platform ''acme'' ''widgets'' ci_path ''A'' ''main'' world_hang_up
       = (Inl ''socket hang up'',
          \<lparr>remote = [Response (json_response 201 ''v1|QQ=='')],
           calls = [read_request ci_endpoint ''main''], console = []\<rparr>)
   \<and> syncFile scripted_platform ''acme'' ''widgets'' ci_path ''A'' ''main'' world_500_plain
       = (Inl ''GitHub API error: 500 internal error'',
          \<lparr>remote = [Response (json_response 201 ''v1|QQ=='')],
           calls = [read_request ci_endpoint ''main''], console = []\<rparr>)
   \<and> setVariable scripted_platform ''acme'' ''widgets'' ''RUNS_ON'' ''ubuntu-latest'' var_hang_up
       = (Inl ''socket hang up'',
          \<lparr>remote = [Response (json_response 201 [])],
           calls = [variable_read_request (variable_endpoint ''acme'' ''widgets'' ''RUNS_ON'')],
           console = []\<rparr>)"
proof -
  note t1 = not_found_is_a_substring_test[where P = scripted_platform and w = world_500
      and req = "read_request (contents_endpoint ''acme'' ''widgets'' ci_path) ''main''"
      and owner = "''acme''" and repo = "''widgets''" and filePath = ci_path and content = "''A''"
      and branch = "''main''" and variableName = "''RUNS_ON''" and variableValue = "''ubuntu-latest''"]
  note t2 = not_found_is_a_substring_test[where P = scripted_platform and w = world_update_404
      and req = "read_request (contents_endpoint ''acme'' ''widgets'' ci_path) ''main''"
      and owner = "''acme''" and repo = "''widgets''" and filePath = ci_path and content = "''A''"
      and branch = "''main''" and variableName = "''RUNS_ON''" and variableValue = "''ubuntu-latest''"]
  note t3 = not_found_is_a_substring_test[where P = scripted_platform and w = var_500
      and req = "read_request (contents_endpoint ''acme'' ''widgets'' ci_path) ''main''"
      and owner = "''acme''" and repo = "''widgets''" and filePath = ci_path and content = "''A''"
      and branch = "''main''" and variableName = "''RUNS_ON''" and variableValue = "''ubuntu-latest''"]
  have c0: "resp_status (json_response 500 ''upstream said 404'') = 500"
    "resp_body (json_response 500 ''upstream said 404'') = ''upstream said 404''"
    by (simp_all add: json_response_def)
  from t1[THEN conjunct1] ex_world_500_fetch ex_500_not_ok
  have c1: "fst (githubRequest scripted_platform
            (read_request (contents_endpoint ''acme'' ''widgets'' ci_path) ''main'') world_500)
       = Inl (''GitHub API error: '' @ show_nat (resp_status (json_response 500 ''upstream said 404'')) @ '' ''
                @ resp_body (json_response 500 ''upstream said 404''))"
    by blast
  from t1[THEN conjunct2, THEN conjunct1] ex_world_500_fetch ex_500_not_ok
  have c2: "issued world_500 (snd (syncFile scripted_platform ''acme'' ''widgets'' ci_path ''A'' ''main'' world_500))
       = [read_request (contents_endpoint ''acme'' ''widgets'' ci_path) ''main'',
          create_request scripted_platform (contents_endpoint ''acme'' ''widgets'' ci_path) ci_path ''A'' ''main'']"
    by blast
  have neB: "fromBase64 scripted_platform (file_content \<lparr>file_content = ''Qg=='', file_sha = ''v2''\<rparr>) \<noteq> ''A''"
    using ex_decode_B by simp
  from t2[THEN conjunct2, THEN conjunct2, THEN conjunct1] ex_world_update_404_read ex_world_update_404_update neB ex_decode_B
  have c3: "issued world_update_404
         (snd (syncFile scripted_platform ''acme'' ''widgets'' ci_path ''A'' ''main'' world_update_404))
       = [read_request (contents_endpoint ''acme'' ''widgets'' ci_path) ''main'',
          update_request scripted_platform (contents_endpoint ''acme'' ''widgets'' ci_path) ci_path ''A''
            (file_sha \<lparr>file_content = ''Qg=='', file_sha = ''v2''\<rparr>) ''main'',
          create_request scripted_platform (contents_endpoint ''acme'' ''widgets'' ci_path) ci_path ''A'' ''main'']"
    by blast
  from t3[THEN conjunct2, THEN conjunct2, THEN conjunct2, THEN conjunct1] ex_var_500_fetch ex_500_not_ok
  have c4: "issued var_500 (snd (setVariable scripted_platform ''acme'' ''widgets'' ''RUNS_ON'' ''ubuntu-latest'' var_500))
       = [variable_read_request (variable_endpoint ''acme'' ''widgets'' ''RUNS_ON''),
          variable_create_request ''acme'' ''widgets'' ''RUNS_ON'' ''ubuntu-latest'']"
    by blast
  have c5: "fst (syncFile scripted_platform ''acme'' ''widgets'' ci_path ''A'' ''main'' world_500) = Inr Created"
    by code_simp
  note t4 = not_found_is_a_substring_test[where P = scripted_platform and w = world_hang_up
      and req = "read_request (contents_endpoint ''acme'' ''widgets'' ci_path) ''main''"
      and owner = "''acme''" and repo = "''widgets''" and filePath = ci_path and content = "''A''"
      and branch = "''main''" and variableName = "''RUNS_ON''" and variableValue = "''ubuntu-latest''"]
  note t5 = not_found_is_a_substring_test[where P = scripted_platform and w = world_500_plain
      and req = "read_request (contents_endpoint ''acme'' ''widgets'' ci_path) ''main''"
      and owner = "''acme''" and repo = "''widgets''" and filePath = ci_path and content = "''A''"
      and branch = "''main''" and variableName = "''RUNS_ON''" and variableValue = "''ubuntu-latest''"]
  note t6 = not_found_is_a_substring_test[where P = scripted_platform and w = var_hang_up
      and req = "read_request (contents_endpoint ''acme'' ''widgets'' ci_path) ''main''"
      and owner = "''acme''" and repo = "''widgets''" and filePath = ci_path and content = "''A''"
      and branch = "''main''" and variableName = "''RUNS_ON''" and variableValue = "''ubuntu-latest''"]
  from t4[THEN conjunct2, THEN conjunct2, THEN conjunct2, THEN conjunct2, THEN conjunct2, THEN conjunct1] ex_world_hang_up_read
  have "if str_includes ''socket hang up'' ''404''
        then issued world_hang_up (snd (syncFile scripted_platform ''acme'' ''widgets'' ci_path ''A'' ''main'' world_hang_up))
               = [read_request (contents_endpoint ''acme'' ''widgets'' ci_path) ''main'',
                  create_request scripted_platform (contents_endpoint ''acme'' ''widgets'' ci_path) ci_path ''A'' ''main'']
        else syncFile scripted_platform ''acme'' ''widgets'' ci_path ''A'' ''main'' world_hang_up
               = (Inl ''socket hang up'',
                  \<lparr>remote = [Response (json_response 201 ''v1|QQ=='')],
                   calls = [read_request ci_endpoint ''main''], console = []\<rparr>)
             \<and> issued world_hang_up (snd (syncFile scripted_platform ''acme'' ''widgets'' ci_path ''A'' ''main'' world_hang_up))
               = [read_request (contents_endpoint ''acme'' ''widgets'' ci_path) ''main'']"
    by blast
  with ex_no_404 have c6: "syncFile scripted_platform ''acme'' ''widgets'' ci_path ''A'' ''main'' world_hang_up
       = (Inl ''socket hang up'',
          \<lparr>remote = [Response (json_response 201 ''v1|QQ=='')],
           calls = [read_request ci_endpoint ''main''], console = []\<rparr>)"
    by metis
  from t5[THEN conjunct2, THEN conjunct2, THEN conjunct2, THEN conjunct2, THEN conjunct2, THEN conjunct1] ex_world_500_plain_read
  have "if str_includes ''GitHub API error: 500 internal error'' ''404''
        then issued world_500_plain (snd (syncFile scripted_platform ''acme'' ''widgets'' ci_path ''A'' ''main'' world_500_plain))
               = [read_request (contents_endpoint ''acme'' ''widgets'' ci_path) ''main'',
                  create_request scripted_platform (contents_endpoint ''acme'' ''widgets'' ci_path) ci_path ''A'' ''main'']
        else syncFile scripted_platform ''acme'' ''widgets'' ci_path ''A'' ''main'' world_500_plain
               = (Inl ''GitHub API error: 500 internal error'',
                  \<lparr>remote = [Response (json_response 201 ''v1|QQ=='')],
                   calls = [read_request ci_endpoint ''main''], console = []\<rparr>)
             \<and> issued world_500_plain (snd (syncFile scripted_platform ''acme'' ''widgets'' ci_path ''A'' ''main'' world_500_plain))
               = [read_request (contents_endpoint ''acme'' ''widgets'' ci_path) ''main'']"
    by blast
  with ex_no_404 have c7: "syncFile scripted_platform ''acme'' ''widgets'' ci_path ''A'' ''main'' world_500_plain
       = (Inl ''GitHub API error: 500 internal error'',
          \<lparr>remote = [Response (json_response 201 ''v1|QQ=='')],
           calls = [read_request ci_endpoint ''main''], console = []\<rparr>)"
    by metis
  from t6[THEN conjunct2, THEN conjunct2, THEN conjunct2, THEN conjunct2, THEN conjunct2, THEN conjunct2, THEN conjunct2, THEN conjunct1] ex_var_hang_up_read
  have "if str_includes ''socket hang up'' ''404''
        then issued var_hang_up (snd (setVariable scripted_platform ''acme'' ''widgets'' ''RUNS_ON'' ''ubuntu-latest'' var_hang_up))
               = [variable_read_request (variable_endpoint ''acme'' ''widgets'' ''RUNS_ON''),
                  variable_create_request ''acme'' ''widgets'' ''RUNS_ON'' ''ubuntu-latest'']
        else setVariable scripted_platform ''acme'' ''widgets'' ''RUNS_ON'' ''ubuntu-latest'' var_hang_up
               = (Inl ''socket hang up'',
                  \<lparr>remote = [Response (json_response 201 [])],
                   calls = [variable_read_request (variable_endpoint ''acme'' ''widgets'' ''RUNS_ON'')],
                   console = []\<rparr>)
             \<and> issued var_hang_up (snd (setVariable scripted_platform ''acme'' ''widgets'' ''RUNS_ON'' ''ubuntu-latest'' var_hang_up))
               = [variable_read_request (variable_endpoint ''acme'' ''widgets'' ''RUNS_ON'')]"
    by blast
  with ex_no_404 have c8: "setVariable scripted_platform ''acme'' ''widgets'' ''RUNS_ON'' ''ubuntu-latest'' var_hang_up
       = (Inl ''socket hang up'',
          \<lparr>remote = [Response (json_response 201 [])],
           calls = [variable_read_request (variable_endpoint ''acme'' ''widgets'' ''RUNS_ON'')],
           console = []\<rparr>)"
    by metis
  show ?thesis using c0 c1 c2 c3 c4 c5 c6 c7 c8 by simp
qed

subsection \<open>C10: no repositories\<close>

text \<open>
  The configuration file is empty: \<open>yaml.load\<close> returns \<open>undefined\<close>, reading
  \<open>config.repositories\<close> throws, and both scripts end with status 1 without the notice.
\<close>

theorem empty_configuration_file_counterexample:
  "fs_config empty_file_fs = Inr YamlUndefined
   \<and> sync_workflows_script example_env scripted_platform empty_file_fs (scripted_world [])
     = (1, \<lparr>remote = [], calls = [],
            console = [LogTitle, ErrFatal ''Cannot read properties of undefined (reading 'repositories')'']\<rparr>)
   \<and> set_secrets_script example_env scripted_secrets_platform (Inr YamlUndefined) (scripted_world [])
     = (1, \<lparr>remote = [], calls = [],
            console = [LogTitle, ErrFatal ''Cannot read properties of undefined (reading 'repositories')'']\<rparr>)"
  by code_simp

text \<open>
  C10, amended. When \<open>yaml.load\<close> returns a value of the type \<open>Config\<close> that has no
  \<open>repositories\<close> entry or an empty one, \<open>main\<close> of either script prints the title and the
  notice and returns; it issues no request, and with the credentials set the process
  ends with status 0.
\<close>

theorem no_repositories_returns_normally:
  assumes none: "repositories config = None \<or> repositories config = Some []"
  shows "(fs_config FS = Inr (YamlValue config) \<longrightarrow>
            main P FS w = (Inr (), w\<lparr>console := console w @ [LogTitle, LogNoRepositories]\<rparr>)
            \<and> issued w (snd (main P FS w)) = []
            \<and> (\<not> unset (GITHUB_TOKEN E) \<longrightarrow>
                  sync_workflows_script E P FS w
                    = (0, w\<lparr>console := console w @ [LogTitle, LogNoRepositories]\<rparr>)))
       \<and> main_secrets Q (Inr (YamlValue config)) apiKey v
            = (Inr (), v\<lparr>console := console v @ [LogTitle, LogNoRepositories]\<rparr>)
       \<and> issued v (snd (main_secrets Q (Inr (YamlValue config)) apiKey v)) = []
       \<and> (\<not> unset (GITHUB_TOKEN E) \<and> \<not> unset (GEMINI_API_KEY E) \<longrightarrow>
             set_secrets_script E Q (Inr (YamlValue config)) v
               = (0, v\<lparr>console := console v @ [LogTitle, LogNoRepositories]\<rparr>))"
proof -
  have m: "main P FS w = (Inr (), w\<lparr>console := console w @ [LogTitle, LogNoRepositories]\<rparr>)"
    if "fs_config FS = Inr (YamlValue config)"
    using that none by (auto simp: main_def read_repositories_def print_line_def)
  have s: "main_secrets Q (Inr (YamlValue config)) apiKey v
            = (Inr (), v\<lparr>console := console v @ [LogTitle, LogNoRepositories]\<rparr>)" for apiKey
    using none by (auto simp: main_secrets_def read_repositories_def print_line_def)
  show ?thesis
    using m s by (auto simp: sync_workflows_script_def set_secrets_script_def unset_def split: option.splits)
qed

theorem no_repositories_returns_normally_witness:
  "sync_workflows_script example_env scripted_platform (example_fs \<lparr>repositories = None\<rparr>) (scripted_world [])
     = (0, \<lparr>remote = [], calls = [], console = [LogTitle, LogNoRepositories]\<rparr>)
   \<and> set_secrets_script example_env scripted_secrets_platform (Inr (YamlValue \<lparr>repositories = Some []\<rparr>))
       (scripted_world [])
     = (0, \<lparr>remote = [], calls = [], console = [LogTitle, LogNoRepositories]\<rparr>)"
proof -
  have n: "repositories \<lparr>repositories = None\<rparr> = None \<or> repositories \<lparr>repositories = None\<rparr> = Some []"
    by simp
  have e: "repositories \<lparr>repositories = Some []\<rparr> = None \<or> repositories \<lparr>repositories = Some []\<rparr> = Some []"
    by simp
  have env: "\<not> unset (GITHUB_TOKEN example_env)" "\<not> unset (GEMINI_API_KEY example_env)"
    by (simp_all add: unset_def example_env_def)
  have fs: "fs_config (example_fs \<lparr>repositories = None\<rparr>) = Inr (YamlValue \<lparr>repositories = None\<rparr>)"
    by (simp add: example_fs_def)
  from no_repositories_returns_normally[OF n, where FS = "example_fs \<lparr>repositories = None\<rparr>"
      and E = example_env and P = scripted_platform and w = "scripted_world []"
      and Q = scripted_secrets_platform and v = "scripted_world []"] fs env
  have a: "sync_workflows_script example_env scripted_platform (example_fs \<lparr>repositories = None\<rparr>) (scripted_world [])
     = (0, (scripted_world [])\<lparr>console := console (scripted_world []) @ [LogTitle, LogNoRepositories]\<rparr>)"
    by blast
  from no_repositories_returns_normally[OF e, where FS = "example_fs \<lparr>repositories = None\<rparr>"
      and E = example_env and P = scripted_platform and w = "scripted_world []"
      and Q = scripted_secrets_platform and v = "scripted_world []"] env
  have b: "set_secrets_script example_env scripted_secrets_platform (Inr (YamlValue \<lparr>repositories = Some []\<rparr>))
       (scripted_world [])
     = (0, (scripted_world [])\<lparr>console := console (scripted_world []) @ [LogTitle, LogNoRepositories]\<rparr>)"
    by blast
  show ?thesis using a b by (simp add: scripted_world_def)
qed

subsection \<open>C6: a secret is sealed and written\<close>

text \<open>
  The read of the public key is answered 403: \<open>setSecret\<close> throws and writes nothing.
\<close>

theorem secret_key_refused_counterexample:
  "setSecret scripted_secrets_platform ''acme'' ''widgets'' ''GEMINI_API_KEY'' ''secret'' secret_refused
     = (Inl ''GitHub API error: 403 Resource not accessible by personal access token'',
        \<lparr>remote = [], calls = [public_key_request ''acme'' ''widgets''], console = []\<rparr>)
   \<and> filter is_write
         (issued secret_refused
            (snd (setSecret scripted_secrets_platform ''acme'' ''widgets'' ''GEMINI_API_KEY'' ''secret''
                    secret_refused))) = []"
  by code_simp

text \<open>
  C6, amended. The first request of \<open>setSecret\<close> is the read of the public key of the
  repository; it is the only read, so no request reads a secret, and at most one write
  follows. When that read throws, \<open>setSecret\<close> throws the same error and writes nothing.
  When the key is fetched and the value is sealed, \<open>setSecret\<close> issues exactly one write
  whatever the remote state: a PUT of the secret, whose body holds the base64 of the
  value sealed under the decoded key that was fetched, and the identifier of that key.
\<close>

theorem setSecret_seals_then_writes:
  assumes run: "setSecret P owner repo secretName secretValue w = (res, w')"
  shows "hd (issued w w') = public_key_request owner repo
       \<and> filter (\<lambda>q. req_method q = GET) (issued w w') = [public_key_request owner repo]
       \<and> length (filter is_write (issued w w')) \<le> 1
       \<and> (\<forall>msg w1. getPublicKey P owner repo w = (Inl msg, w1)
             \<longrightarrow> res = Inl msg \<and> issued w w' = [public_key_request owner repo])
       \<and> (\<forall>publicKey w1 encryptedValue r2.
             getPublicKey P owner repo w = (Inr (Parsed publicKey), w1)
             \<and> encryptSecret P (pk_key publicKey) secretValue (remote w1) = (Inr encryptedValue, r2)
             \<longrightarrow> issued w w' = [public_key_request owner repo,
                                  secret_request owner repo secretName encryptedValue (pk_key_id publicKey)]
                 \<and> filter is_write (issued w w')
                     = [secret_request owner repo secretName encryptedValue (pk_key_id publicKey)]
                 \<and> body_field (secret_request owner repo secretName encryptedValue (pk_key_id publicKey))
                       ''encrypted_value'' = Some encryptedValue
                 \<and> body_field (secret_request owner repo secretName encryptedValue (pk_key_id publicKey))
                       ''key_id'' = Some (pk_key_id publicKey)
                 \<and> (\<exists>publicKeyBytes sealed.
                       decodeBase64 P (pk_key publicKey) = Inr publicKeyBytes
                       \<and> seal P (remote w1) (TextEncoder_encode P secretValue) publicKeyBytes = (Inr sealed, r2)
                       \<and> encryptedValue = nacl_encodeBase64 P sealed))"
proof -
  have a: "res = Inl msg \<and> issued w w' = [public_key_request owner repo]"
    if "getPublicKey P owner repo w = (Inl msg, w1)" for msg w1
    using setSecret_key_refused[OF that, of secretName secretValue] run by simp
  show ?thesis
    using setSecret_reads_only_the_key[OF run] setSecret_sealed_write[OF _ _ run] a
    by blast
qed

theorem setSecret_seals_then_writes_witness:
  "issued secret_world
     (snd (setSecret scripted_secrets_platform ''acme'' ''widgets'' ''GEMINI_API_KEY'' ''secret'' secret_world))
     = [public_key_request ''acme'' ''widgets'',
        secret_request ''acme'' ''widgets'' ''GEMINI_API_KEY''
          (base64_encode (''sealed['' @ example_key @ ''][secret]'')) ''k1'']
   \<and> fst (setSecret scripted_secrets_platform ''acme'' ''widgets'' ''GEMINI_API_KEY'' ''secret'' secret_world)
     = Inr ()
   \<and> length example_key = 32"
proof -
  let ?s = "setSecret scripted_secrets_platform ''acme'' ''widgets'' ''GEMINI_API_KEY'' ''secret'' secret_world"
  have run: "?s = (fst ?s, snd ?s)" by simp
  from setSecret_seals_then_writes[OF run] ex_secret_key ex_secret_sealed
  have "issued secret_world (snd ?s)
     = [public_key_request ''acme'' ''widgets'',
        secret_request ''acme'' ''widgets'' ''GEMINI_API_KEY''
          (base64_encode (''sealed['' @ example_key @ ''][secret]''))
          (pk_key_id \<lparr>pk_key_id = ''k1'', pk_key = ''MDEyMzQ1Njc4OWFiY2RlZjAxMjM0NTY3ODlhYmNkZWY=''\<rparr>)]"
    by blast
  moreover have "fst ?s = Inr ()" by code_simp
  ultimately show ?thesis using ex_key_size by simp
qed

end
